theory Spec2Isabelle
  imports Main "HOL-Library.Monad_Syntax"
begin

section \<open>Data model (src/types/index.ts)\<close>

text \<open>
  The TypeScript interfaces become records. A field marked optional (\<open>?\<close>) has an
  \<open>option\<close> type, with \<open>None\<close> for \<open>undefined\<close>. Field names that would
  capture a HOL constant or an everyday variable name carry a suffix: \<open>id_e\<close>,
  \<open>type_e\<close>, \<open>x_e\<close>, ... are \<open>SlideElement.id\<close>, \<open>.type\<close>, \<open>.x\<close>, ...;
  \<open>id_s\<close> is \<open>Slide.id\<close>. The numbers of the data model are whole numbers,
  modelled as integers; where the code computes with them (the z-index in
  \<open>bringToFront\<close> and \<open>sendToBack\<close>) the arithmetic is the rounding arithmetic
  of doubles.
\<close>

datatype ElementType = Text | Image | Shape

datatype TextAlign = AlignLeft | AlignCenter | AlignRight

datatype BorderRadius = RadiusNumber int | RadiusString string

record Style =
  backgroundColor_st :: "string option"
  color :: "string option"
  fontSize :: "int option"
  fontWeight :: "string option"
  fontStyle :: "string option"
  textDecoration :: "string option"
  textAlign :: "TextAlign option"
  borderRadius :: "BorderRadius option"

record SlideElement =
  id_e :: string
  type_e :: ElementType
  x_e :: int
  y_e :: int
  width_e :: int
  height_e :: int
  content :: "string option"
  style :: "Style option"
  zIndex :: "int option"

record Slide =
  id_s :: string
  elements :: "SlideElement list"
  backgroundColor :: "string option"

section \<open>Document store (src/hooks/useSlideStore.tsx)\<close>

text \<open>
  The four \<open>useState\<close> cells of the hook form the store. Every operation is a function
  from the store before the call to the store after it; the clock reading
  \<open>Date.now()\<close> that an operation takes is a parameter. An operation that builds a
  new slide array also hands it to \<open>autoSave\<close>, which writes it to
  \<open>localStorage\<close> with \<open>savePresentation\<close> (modelled further down) once
  \<open>isLoaded\<close> holds; that write does not touch the store and is not part of the
  functions here. \<open>addSlide\<close> inspects its argument at run time and follows the
  section on runtime values.
\<close>

record Store =
  slides :: "Slide list"
  currentSlideId :: "string option"
  selectedElementId :: "string option"
  isLoaded :: bool

text \<open>Decimal rendering of a natural number, as a template literal prints it.\<close>

definition digitChar :: "nat \<Rightarrow> char" where
  "digitChar d = ''0123456789'' ! d"

function decimal :: "nat \<Rightarrow> string" where
  "decimal n = (if n < 10 then [digitChar n] else decimal (n div 10) @ [digitChar (n mod 10)])"
  by pat_completeness auto
termination
  by (relation "measure (\<lambda>n. n)") auto

declare decimal.simps [simp del]

text \<open>The slide that \<open>addSlide\<close> and \<open>deleteSlide\<close> synthesize:
  \<open>{ id: `slide-${Date.now()}`, elements: [], backgroundColor: "#ffffff" }\<close>.\<close>

definition emptySlide :: "nat \<Rightarrow> Slide" where
  "emptySlide now = \<lparr>id_s = ''slide-'' @ decimal now, elements = [], backgroundColor = Some ''#ffffff''\<rparr>"

definition deleteSlide :: "nat \<Rightarrow> string \<Rightarrow> Store \<Rightarrow> Store" where
  "deleteSlide now slideId st =
     (let filtered = filter (\<lambda>slide. id_s slide \<noteq> slideId) (slides st) in
      if length filtered = 0 then
        (let newSlide = emptySlide now in
         st\<lparr>slides := [newSlide],
            currentSlideId := Some (id_s newSlide),
            selectedElementId := None\<rparr>)
      else
        st\<lparr>slides := filtered,
           currentSlideId :=
             (if Some slideId = currentSlideId st then Some (id_s (filtered ! 0))
              else currentSlideId st),
           selectedElementId := None\<rparr>)"

text \<open>
  \<open>duplicateSlide\<close> reads the clock once for the new slide id and, for the element at
  position \<open>k\<close>, once more together with \<open>Math.random()\<close>; \<open>stamp k\<close> is that
  pair (the clock reading, and the text the random number prints as).
\<close>

fun findIndex :: "('a \<Rightarrow> bool) \<Rightarrow> 'a list \<Rightarrow> nat option" where
  "findIndex p [] = None"
| "findIndex p (a # as) =
     (if p a then Some 0 else (case findIndex p as of None \<Rightarrow> None | Some i \<Rightarrow> Some (Suc i)))"

definition elementIdText :: "nat \<times> string \<Rightarrow> string" where
  "elementIdText ts = ''element-'' @ decimal (fst ts) @ ''-'' @ snd ts"

definition reidentify :: "(nat \<Rightarrow> nat \<times> string) \<Rightarrow> SlideElement list \<Rightarrow> SlideElement list" where
  "reidentify stamp es =
     map (\<lambda>(k, element). element\<lparr>id_e := elementIdText (stamp k)\<rparr>) (enumerate 0 es)"

definition duplicateSlide :: "nat \<Rightarrow> (nat \<Rightarrow> nat \<times> string) \<Rightarrow> string \<Rightarrow> Store \<Rightarrow> Store" where
  "duplicateSlide now stamp slideId st =
     (case findIndex (\<lambda>slide. id_s slide = slideId) (slides st) of
        None \<Rightarrow> st
      | Some slideIndex \<Rightarrow>
          (let originalSlide = slides st ! slideIndex;
               duplicatedSlide =
                 \<lparr>id_s = ''slide-'' @ decimal now,
                  elements = reidentify stamp (elements originalSlide),
                  backgroundColor = backgroundColor originalSlide\<rparr>
           in st\<lparr>slides := take (slideIndex + 1) (slides st) @ [duplicatedSlide]
                              @ drop (slideIndex + 1) (slides st)\<rparr>))"

text \<open>
  \<open>Array.prototype.splice\<close> clamps its start index: a negative start counts from the
  end, and a start beyond the end is the end.
\<close>

definition spliceStart :: "int \<Rightarrow> nat \<Rightarrow> nat" where
  "spliceStart i len =
     (if i < 0 then nat (max (int len + i) 0) else min (nat i) len)"

text \<open>
  \<open>reorderSlides\<close> reads \<open>newSlides[dragIndex]\<close> before splicing. With
  \<open>dragIndex\<close> outside \<open>0 .. length - 1\<close> that read is \<open>undefined\<close>, and the
  code splices \<open>undefined\<close> into the slide array; a \<open>Slide list\<close> cannot hold it, so
  the model returns \<open>None\<close> there.
\<close>

definition reorderSlides :: "int \<Rightarrow> int \<Rightarrow> Store \<Rightarrow> Store option" where
  "reorderSlides dragIndex hoverIndex st =
     (if 0 \<le> dragIndex \<and> dragIndex < int (length (slides st)) then
        (let draggedSlide = slides st ! nat dragIndex;
             d = spliceStart dragIndex (length (slides st));
             removed = take d (slides st) @ drop (d + 1) (slides st);
             h = spliceStart hoverIndex (length removed)
         in Some (st\<lparr>slides := take h removed @ [draggedSlide] @ drop h removed\<rparr>))
      else None)"

definition setCurrentSlide :: "string \<Rightarrow> Store \<Rightarrow> Store" where
  "setCurrentSlide slideId st = st\<lparr>currentSlideId := Some slideId, selectedElementId := None\<rparr>"

definition addElement :: "string \<Rightarrow> SlideElement \<Rightarrow> Store \<Rightarrow> Store" where
  "addElement slideId element st =
     st\<lparr>slides :=
          map (\<lambda>slide. if id_s slide = slideId
                        then slide\<lparr>elements := elements slide @ [element]\<rparr>
                        else slide) (slides st),
        selectedElementId := Some (id_e element)\<rparr>"

text \<open>
  \<open>Partial<SlideElement>\<close>: every key may be missing (\<open>None\<close>). For the three
  optional fields a present key may itself carry \<open>undefined\<close> (\<open>Some None\<close>), as in
  the call \<open>updateElement(id, element.id, { content: element.content })\<close> of App.tsx.
\<close>

record ElementUpdates =
  u_id :: "string option"
  u_type :: "ElementType option"
  u_x :: "int option"
  u_y :: "int option"
  u_width :: "int option"
  u_height :: "int option"
  u_content :: "string option option"
  u_style :: "Style option option"
  u_zIndex :: "int option option"

definition overwrite :: "'a \<Rightarrow> 'a option \<Rightarrow> 'a" where
  "overwrite old new = (case new of None \<Rightarrow> old | Some v \<Rightarrow> v)"

text \<open>The object spread \<open>{ ...element, ...updates }\<close>: a key of \<open>updates\<close> wins.\<close>

definition spreadUpdates :: "SlideElement \<Rightarrow> ElementUpdates \<Rightarrow> SlideElement" where
  "spreadUpdates element updates =
     \<lparr>id_e = overwrite (id_e element) (u_id updates),
      type_e = overwrite (type_e element) (u_type updates),
      x_e = overwrite (x_e element) (u_x updates),
      y_e = overwrite (y_e element) (u_y updates),
      width_e = overwrite (width_e element) (u_width updates),
      height_e = overwrite (height_e element) (u_height updates),
      content = overwrite (content element) (u_content updates),
      style = overwrite (style element) (u_style updates),
      zIndex = overwrite (zIndex element) (u_zIndex updates)\<rparr>"

definition updateElement :: "string \<Rightarrow> string \<Rightarrow> ElementUpdates \<Rightarrow> Store \<Rightarrow> Store" where
  "updateElement slideId elementId updates st =
     st\<lparr>slides :=
          map (\<lambda>slide. if id_s slide = slideId
                        then slide\<lparr>elements :=
                               map (\<lambda>element. if id_e element = elementId
                                                then spreadUpdates element updates
                                                else element) (elements slide)\<rparr>
                        else slide) (slides st)\<rparr>"

definition deleteElement :: "string \<Rightarrow> string \<Rightarrow> Store \<Rightarrow> Store" where
  "deleteElement slideId elementId st =
     st\<lparr>slides :=
          map (\<lambda>slide. if id_s slide = slideId
                        then slide\<lparr>elements :=
                               filter (\<lambda>element. id_e element \<noteq> elementId) (elements slide)\<rparr>
                        else slide) (slides st),
        selectedElementId := None\<rparr>"

definition setSelectedElement :: "string option \<Rightarrow> Store \<Rightarrow> Store" where
  "setSelectedElement elementId st = st\<lparr>selectedElementId := elementId\<rparr>"

text \<open>\<open>el.zIndex || 0\<close>: an absent z-index counts as 0 (and 0 is 0 either way).\<close>

definition zIndexOr0 :: "SlideElement \<Rightarrow> int" where
  "zIndexOr0 el = (case zIndex el of None \<Rightarrow> 0 | Some z \<Rightarrow> if z = 0 then 0 else z)"

text \<open>
  \<open>Math.max(...zs)\<close> and \<open>Math.min(...zs)\<close>. Without arguments they are
  \<open>-Infinity\<close> and \<open>Infinity\<close>, here \<open>None\<close>; the slide then has no element, and
  the \<open>map\<close> that would store the value visits nothing.
\<close>

fun mathMax :: "int list \<Rightarrow> int option" where
  "mathMax [] = None"
| "mathMax (z # zs) = (case mathMax zs of None \<Rightarrow> Some z | Some m \<Rightarrow> Some (max z m))"

fun mathMin :: "int list \<Rightarrow> int option" where
  "mathMin [] = None"
| "mathMin (z # zs) = (case mathMin zs of None \<Rightarrow> Some z | Some m \<Rightarrow> Some (min z m))"

text \<open>
  The z-indices are whole numbers held in doubles. A whole number below \<open>2^53\<close> in
  size is a double; from there on the doubles are \<open>ulp\<close> apart, and a sum is the
  exact sum rounded to the nearest double, a tie going to the one whose multiple of
  \<open>ulp\<close> is even. Adding or subtracting 1 never overflows.
\<close>

function ulp :: "int \<Rightarrow> int" where
  "ulp n = (if n < 9007199254740992 then 1 else 2 * ulp (n div 2))"
  by pat_completeness auto
termination
  by (relation "measure nat") auto

declare ulp.simps [simp del]

definition roundDouble :: "int \<Rightarrow> int" where
  "roundDouble x =
     (let u = ulp \<bar>x\<bar>; q = x div u; r = x mod u in
      if 2 * r < u then q * u
      else if u < 2 * r then (q + 1) * u
      else if even q then q * u else (q + 1) * u)"

definition jsPlus :: "int \<Rightarrow> int \<Rightarrow> int" where
  "jsPlus a b = roundDouble (a + b)"

definition jsMinus :: "int \<Rightarrow> int \<Rightarrow> int" where
  "jsMinus a b = roundDouble (a - b)"

definition bringToFront :: "string \<Rightarrow> string \<Rightarrow> Store \<Rightarrow> Store" where
  "bringToFront slideId elementId st =
     st\<lparr>slides :=
          map (\<lambda>slide.
                 if id_s slide \<noteq> slideId then slide
                 else (case mathMax (map zIndexOr0 (elements slide)) of
                         None \<Rightarrow> slide
                       | Some maxZIndex \<Rightarrow>
                           slide\<lparr>elements :=
                             map (\<lambda>element. if id_e element = elementId
                                              then element\<lparr>zIndex := Some (jsPlus maxZIndex 1)\<rparr>
                                              else element) (elements slide)\<rparr>))
              (slides st)\<rparr>"

definition sendToBack :: "string \<Rightarrow> string \<Rightarrow> Store \<Rightarrow> Store" where
  "sendToBack slideId elementId st =
     st\<lparr>slides :=
          map (\<lambda>slide.
                 if id_s slide \<noteq> slideId then slide
                 else (case mathMin (map zIndexOr0 (elements slide)) of
                         None \<Rightarrow> slide
                       | Some minZIndex \<Rightarrow>
                           slide\<lparr>elements :=
                             map (\<lambda>element. if id_e element = elementId
                                              then element\<lparr>zIndex := Some (jsMinus minZIndex 1)\<rparr>
                                              else element) (elements slide)\<rparr>))
              (slides st)\<rparr>"

subsection \<open>Vocabulary for the stacking order\<close>

text \<open>
  What \<open>bringToFront\<close> and \<open>sendToBack\<close> do to the element list of the slide
  they address: \<open>restack\<close> gives the elements with the given id the z-index
  \<open>z\<close>, which is one above the maximum, or one below the minimum.
\<close>

definition restack :: "string \<Rightarrow> int \<Rightarrow> SlideElement list \<Rightarrow> SlideElement list" where
  "restack elementId z es =
     map (\<lambda>element. if id_e element = elementId then element\<lparr>zIndex := Some z\<rparr> else element) es"

definition frontElements :: "string \<Rightarrow> SlideElement list \<Rightarrow> SlideElement list" where
  "frontElements elementId es =
     (case mathMax (map zIndexOr0 es) of None \<Rightarrow> es
      | Some m \<Rightarrow> restack elementId (jsPlus m 1) es)"

definition backElements :: "string \<Rightarrow> SlideElement list \<Rightarrow> SlideElement list" where
  "backElements elementId es =
     (case mathMin (map zIndexOr0 es) of None \<Rightarrow> es
      | Some m \<Rightarrow> restack elementId (jsMinus m 1) es)"


section \<open>Runtime values\<close>

text \<open>
  Where the code inspects a value at run time (\<open>typeof\<close>, \<open>Array.isArray\<close>,
  truthiness, \<open>JSON.parse\<close>) the value is a \<open>jsval\<close>: the JSON values and
  \<open>undefined\<close>. An object is the list of its own properties in insertion order.
  \<open>getProp v k\<close> is the property read \<open>v.k\<close> for the keys the code reads
  (\<open>id\<close>, \<open>elements\<close>, \<open>name\<close> and the other field names, none of which a
  primitive or an array has); on \<open>null\<close> and \<open>undefined\<close> the read throws, which
  each caller that can meet them models itself.
\<close>

datatype jsval =
    JUndefined
  | JNull
  | JBool bool
  | JNum int
  | JStr string
  | JArr "jsval list"
  | JObj "(string \<times> jsval) list"

fun truthy :: "jsval \<Rightarrow> bool" where
  "truthy JUndefined = False"
| "truthy JNull = False"
| "truthy (JBool b) = b"
| "truthy (JNum n) = (n \<noteq> 0)"
| "truthy (JStr s) = (s \<noteq> [])"
| "truthy (JArr vs) = True"
| "truthy (JObj ps) = True"

fun typeof :: "jsval \<Rightarrow> string" where
  "typeof JUndefined = ''undefined''"
| "typeof JNull = ''object''"
| "typeof (JBool b) = ''boolean''"
| "typeof (JNum n) = ''number''"
| "typeof (JStr s) = ''string''"
| "typeof (JArr vs) = ''object''"
| "typeof (JObj ps) = ''object''"

fun isArray :: "jsval \<Rightarrow> bool" where
  "isArray (JArr vs) = True"
| "isArray v = False"

fun getProp :: "jsval \<Rightarrow> string \<Rightarrow> jsval" where
  "getProp (JObj ps) k = (case map_of ps k of None \<Rightarrow> JUndefined | Some v \<Rightarrow> v)"
| "getProp v k = JUndefined"

definition nullish :: "jsval \<Rightarrow> bool" where
  "nullish v = (v = JUndefined \<or> v = JNull)"

subsection \<open>Typed values as runtime objects\<close>

text \<open>
  \<open>jsStyle\<close>, \<open>jsElement\<close> and \<open>jsSlide\<close> give the runtime object of a typed
  value, with the properties in the order of the interface declaration and an absent
  optional field as a property holding \<open>undefined\<close> (no read and no
  \<open>JSON.stringify\<close> tells the two apart).
\<close>

definition jsOpt :: "('a \<Rightarrow> jsval) \<Rightarrow> 'a option \<Rightarrow> jsval" where
  "jsOpt f v = (case v of None \<Rightarrow> JUndefined | Some a \<Rightarrow> f a)"

fun jsElementType :: "ElementType \<Rightarrow> jsval" where
  "jsElementType Text = JStr ''text''"
| "jsElementType Image = JStr ''image''"
| "jsElementType Shape = JStr ''shape''"

fun jsTextAlign :: "TextAlign \<Rightarrow> jsval" where
  "jsTextAlign AlignLeft = JStr ''left''"
| "jsTextAlign AlignCenter = JStr ''center''"
| "jsTextAlign AlignRight = JStr ''right''"

fun jsBorderRadius :: "BorderRadius \<Rightarrow> jsval" where
  "jsBorderRadius (RadiusNumber n) = JNum n"
| "jsBorderRadius (RadiusString s) = JStr s"

definition jsStyle :: "Style \<Rightarrow> jsval" where
  "jsStyle s = JObj
     [(''backgroundColor'', jsOpt JStr (backgroundColor_st s)),
      (''color'', jsOpt JStr (color s)),
      (''fontSize'', jsOpt JNum (fontSize s)),
      (''fontWeight'', jsOpt JStr (fontWeight s)),
      (''fontStyle'', jsOpt JStr (fontStyle s)),
      (''textDecoration'', jsOpt JStr (textDecoration s)),
      (''textAlign'', jsOpt jsTextAlign (textAlign s)),
      (''borderRadius'', jsOpt jsBorderRadius (borderRadius s))]"

definition jsElement :: "SlideElement \<Rightarrow> jsval" where
  "jsElement e = JObj
     [(''id'', JStr (id_e e)),
      (''type'', jsElementType (type_e e)),
      (''x'', JNum (x_e e)),
      (''y'', JNum (y_e e)),
      (''width'', JNum (width_e e)),
      (''height'', JNum (height_e e)),
      (''content'', jsOpt JStr (content e)),
      (''style'', jsOpt jsStyle (style e)),
      (''zIndex'', jsOpt JNum (zIndex e))]"

definition jsSlide :: "Slide \<Rightarrow> jsval" where
  "jsSlide s = JObj
     [(''id'', JStr (id_s s)),
      (''elements'', JArr (map jsElement (elements s))),
      (''backgroundColor'', jsOpt JStr (backgroundColor s))]"

subsection \<open>Runtime objects as typed values\<close>

text \<open>
  TypeScript takes a runtime object for a \<open>Slide\<close> on the strength of an annotation.
  \<open>asSlide\<close> is that reading made explicit: it succeeds on the objects whose
  properties have the declared types, and is \<open>None\<close> on every other value.
\<close>

fun asString :: "jsval \<Rightarrow> string option" where
  "asString (JStr s) = Some s"
| "asString v = None"

fun asNumber :: "jsval \<Rightarrow> int option" where
  "asNumber (JNum n) = Some n"
| "asNumber v = None"

definition asOptional :: "(jsval \<Rightarrow> 'a option) \<Rightarrow> jsval \<Rightarrow> 'a option option" where
  "asOptional f v = (if v = JUndefined then Some None else map_option Some (f v))"

definition asElementType :: "jsval \<Rightarrow> ElementType option" where
  "asElementType v =
     (if v = JStr ''text'' then Some Text
      else if v = JStr ''image'' then Some Image
      else if v = JStr ''shape'' then Some Shape
      else None)"

definition asTextAlign :: "jsval \<Rightarrow> TextAlign option" where
  "asTextAlign v =
     (if v = JStr ''left'' then Some AlignLeft
      else if v = JStr ''center'' then Some AlignCenter
      else if v = JStr ''right'' then Some AlignRight
      else None)"

fun asBorderRadius :: "jsval \<Rightarrow> BorderRadius option" where
  "asBorderRadius (JNum n) = Some (RadiusNumber n)"
| "asBorderRadius (JStr s) = Some (RadiusString s)"
| "asBorderRadius v = None"

definition asStyle :: "jsval \<Rightarrow> Style option" where
  "asStyle v =
     (if typeof v = ''object'' \<and> \<not> nullish v \<and> \<not> isArray v then
        do {
          bg \<leftarrow> asOptional asString (getProp v ''backgroundColor'');
          co \<leftarrow> asOptional asString (getProp v ''color'');
          fs \<leftarrow> asOptional asNumber (getProp v ''fontSize'');
          fw \<leftarrow> asOptional asString (getProp v ''fontWeight'');
          fy \<leftarrow> asOptional asString (getProp v ''fontStyle'');
          td \<leftarrow> asOptional asString (getProp v ''textDecoration'');
          ta \<leftarrow> asOptional asTextAlign (getProp v ''textAlign'');
          br \<leftarrow> asOptional asBorderRadius (getProp v ''borderRadius'');
          Some \<lparr>backgroundColor_st = bg, color = co, fontSize = fs, fontWeight = fw,
                fontStyle = fy, textDecoration = td, textAlign = ta, borderRadius = br\<rparr>
        }
      else None)"

definition asElement :: "jsval \<Rightarrow> SlideElement option" where
  "asElement v =
     (if typeof v = ''object'' \<and> \<not> nullish v \<and> \<not> isArray v then
        do {
          i \<leftarrow> asString (getProp v ''id'');
          t \<leftarrow> asElementType (getProp v ''type'');
          x \<leftarrow> asNumber (getProp v ''x'');
          y \<leftarrow> asNumber (getProp v ''y'');
          w \<leftarrow> asNumber (getProp v ''width'');
          h \<leftarrow> asNumber (getProp v ''height'');
          c \<leftarrow> asOptional asString (getProp v ''content'');
          s \<leftarrow> asOptional asStyle (getProp v ''style'');
          z \<leftarrow> asOptional asNumber (getProp v ''zIndex'');
          Some \<lparr>id_e = i, type_e = t, x_e = x, y_e = y, width_e = w, height_e = h,
                content = c, style = s, zIndex = z\<rparr>
        }
      else None)"

fun asArray :: "(jsval \<Rightarrow> 'a option) \<Rightarrow> jsval \<Rightarrow> 'a list option" where
  "asArray f (JArr vs) = those (map f vs)"
| "asArray f v = None"

definition asSlide :: "jsval \<Rightarrow> Slide option" where
  "asSlide v =
     (if typeof v = ''object'' \<and> \<not> nullish v \<and> \<not> isArray v then
        do {
          i \<leftarrow> asString (getProp v ''id'');
          es \<leftarrow> asArray asElement (getProp v ''elements'');
          bg \<leftarrow> asOptional asString (getProp v ''backgroundColor'');
          Some \<lparr>id_s = i, elements = es, backgroundColor = bg\<rparr>
        }
      else None)"

section \<open>Document store, continued: addSlide and the operations as one type\<close>

text \<open>
  The shape check \<open>slide && typeof slide === 'object' && slide.id &&
  Array.isArray(slide.elements)\<close> on a slide of the store: it is an object and its
  \<open>elements\<close> are an array by type, so the check is whether the id is truthy, that is
  not the empty string.
\<close>

definition validSlide :: "Slide \<Rightarrow> bool" where
  "validSlide slide = (id_s slide \<noteq> [])"

text \<open>
  \<open>addSlide(template?)\<close>. The argument is whatever the caller passes, a \<open>jsval\<close>
  (the wrapper in App.tsx exists because click events were passed). A truthy argument
  that fails the check is rejected: the function logs and returns. Otherwise the new
  slide is \<open>template || { id: `slide-${Date.now()}`, ... }\<close>. An accepted argument
  that is not a \<open>Slide\<close> (say one whose id is a number) would enter the slide array as
  it is; the typed store cannot hold it and the model returns \<open>None\<close> there.
\<close>

definition addSlide :: "nat \<Rightarrow> jsval \<Rightarrow> Store \<Rightarrow> Store option" where
  "addSlide now template st =
     (if truthy template \<and>
         (typeof template \<noteq> ''object'' \<or> \<not> truthy (getProp template ''id'')
          \<or> \<not> isArray (getProp template ''elements''))
      then Some st
      else
        (case (if truthy template then asSlide template else Some (emptySlide now)) of
           None \<Rightarrow> None
         | Some newSlide \<Rightarrow>
             Some (st\<lparr>slides := filter validSlide (slides st) @ [newSlide],
                      currentSlideId := Some (id_s newSlide),
                      selectedElementId := None\<rparr>)))"

subsection \<open>The operations as one type\<close>

text \<open>
  The public operations of the hook, each with its arguments and the clock and random
  readings it takes, and \<open>perform\<close>, which runs one of them.
\<close>

datatype Operation =
    AddSlide nat jsval
  | DeleteSlide nat string
  | DuplicateSlide nat "nat \<Rightarrow> nat \<times> string" string
  | ReorderSlides int int
  | SetCurrentSlide string
  | AddElement string SlideElement
  | UpdateElement string string ElementUpdates
  | DeleteElement string string
  | SetSelectedElement "string option"
  | BringToFront string string
  | SendToBack string string

fun perform :: "Operation \<Rightarrow> Store \<Rightarrow> Store option" where
  "perform (AddSlide now template) st = addSlide now template st"
| "perform (DeleteSlide now slideId) st = Some (deleteSlide now slideId st)"
| "perform (DuplicateSlide now stamp slideId) st = Some (duplicateSlide now stamp slideId st)"
| "perform (ReorderSlides dragIndex hoverIndex) st = reorderSlides dragIndex hoverIndex st"
| "perform (SetCurrentSlide slideId) st = Some (setCurrentSlide slideId st)"
| "perform (AddElement slideId element) st = Some (addElement slideId element st)"
| "perform (UpdateElement slideId elementId updates) st =
     Some (updateElement slideId elementId updates st)"
| "perform (DeleteElement slideId elementId) st = Some (deleteElement slideId elementId st)"
| "perform (SetSelectedElement elementId) st = Some (setSelectedElement elementId st)"
| "perform (BringToFront slideId elementId) st = Some (bringToFront slideId elementId st)"
| "perform (SendToBack slideId elementId) st = Some (sendToBack slideId elementId st)"

subsection \<open>Vocabulary for element identity\<close>

text \<open>
  \<open>elementIds\<close> is the id of every element, slide by slide and position by position.
  \<open>rewritesInPlace\<close> holds of the operations that replace an element by a modified copy in
  the same position; every other operation carries element objects over as they are,
  drops them, or brings in the elements listed by \<open>introduced\<close>.
\<close>

definition elementIds :: "Store \<Rightarrow> string list list" where
  "elementIds st = map (\<lambda>slide. map id_e (elements slide)) (slides st)"

definition allElements :: "Store \<Rightarrow> SlideElement list" where
  "allElements st = concat (map elements (slides st))"

fun rewritesInPlace :: "Operation \<Rightarrow> bool" where
  "rewritesInPlace (UpdateElement slideId elementId updates) = True"
| "rewritesInPlace (BringToFront slideId elementId) = True"
| "rewritesInPlace (SendToBack slideId elementId) = True"
| "rewritesInPlace other = False"

fun introduced :: "Operation \<Rightarrow> Store \<Rightarrow> SlideElement list" where
  "introduced (AddSlide now template) st =
     (case asSlide template of None \<Rightarrow> [] | Some slide \<Rightarrow> elements slide)"
| "introduced (AddElement slideId element) st = [element]"
| "introduced (DuplicateSlide now stamp slideId) st =
     (case findIndex (\<lambda>slide. id_s slide = slideId) (slides st) of
        None \<Rightarrow> []
      | Some slideIndex \<Rightarrow> reidentify stamp (elements (slides st ! slideIndex)))"
| "introduced other st = []"

section \<open>Persistence (src/utils/presentationStorage.ts, savedSlidesUtils)\<close>

text \<open>
  \<open>localStorage\<close> maps keys to strings. A stored string is represented by what
  \<open>JSON.parse\<close> makes of it: \<open>JsonText v\<close> parses to the value \<open>v\<close>, and
  \<open>NotJson\<close> is a string that does not parse (the empty string among them).
  \<open>JSON.stringify\<close> writes the text that parses to \<open>toJSON v\<close>: a property
  holding \<open>undefined\<close> is left out, \<open>undefined\<close> in an array becomes \<open>null\<close>,
  and \<open>JSON.stringify(undefined)\<close> is \<open>undefined\<close>, stored as the text
  \<open>undefined\<close>, which does not parse. Writes are taken to succeed (no quota).
\<close>

datatype storedText = JsonText jsval | NotJson

type_synonym localStorage = "string \<Rightarrow> storedText option"

definition emptyStorage :: localStorage where
  "emptyStorage = (\<lambda>key. None)"

definition setItem :: "string \<Rightarrow> storedText \<Rightarrow> localStorage \<Rightarrow> localStorage" where
  "setItem key txt st = st(key := Some txt)"

fun toJSON :: "jsval \<Rightarrow> jsval" where
  "toJSON (JArr vs) = JArr (map (\<lambda>v. if v = JUndefined then JNull else toJSON v) vs)"
| "toJSON (JObj ps) =
     JObj (concat (map (\<lambda>(k, v). if v = JUndefined then [] else [(k, toJSON v)]) ps))"
| "toJSON v = v"


definition JSON_stringify :: "jsval \<Rightarrow> storedText" where
  "JSON_stringify v = (if v = JUndefined then NotJson else JsonText (toJSON v))"

fun JSON_parse :: "storedText \<Rightarrow> jsval option" where
  "JSON_parse (JsonText v) = Some v"
| "JSON_parse NotJson = None"

definition PRESENTATION_STORAGE_KEY :: string where
  "PRESENTATION_STORAGE_KEY = ''slide-editor-presentation''"


subsection \<open>sanitizeSlidesForStorage, savePresentation, loadPresentation\<close>

text \<open>
  The argument of \<open>savePresentation\<close> is the array as it is at run time, a list of
  \<open>jsval\<close>: the filter is there for entries that are no slides. Reading a property of
  an element that is \<open>null\<close> or \<open>undefined\<close> throws a TypeError, here \<open>None\<close>;
  \<open>savePresentation\<close> catches it, logs, and writes nothing.
\<close>

definition sanitizeElement :: "jsval \<Rightarrow> jsval option" where
  "sanitizeElement element =
     (if nullish element then None
      else Some (JObj
        [(''id'', getProp element ''id''),
         (''type'', getProp element ''type''),
         (''x'', getProp element ''x''),
         (''y'', getProp element ''y''),
         (''width'', getProp element ''width''),
         (''height'', getProp element ''height''),
         (''content'', getProp element ''content''),
         (''style'', getProp element ''style''),
         (''zIndex'', getProp element ''zIndex'')]))"

definition sanitizeSlide :: "jsval \<Rightarrow> jsval option" where
  "sanitizeSlide slide =
     (case getProp slide ''elements'' of
        JArr es \<Rightarrow>
          (case those (map sanitizeElement es) of
             None \<Rightarrow> None
           | Some cleanElements \<Rightarrow>
               Some (JObj
                 [(''id'', getProp slide ''id''),
                  (''backgroundColor'', getProp slide ''backgroundColor''),
                  (''elements'', JArr cleanElements)]))
      | other \<Rightarrow> None)"

definition sanitizeSlidesForStorage :: "jsval list \<Rightarrow> jsval list option" where
  "sanitizeSlidesForStorage slideArray =
     (let validSlides =
            filter (\<lambda>slide. truthy slide \<and> typeof slide = ''object''
                             \<and> truthy (getProp slide ''id'')
                             \<and> isArray (getProp slide ''elements'')) slideArray
      in those (map sanitizeSlide validSlides))"

definition savePresentation :: "jsval list \<Rightarrow> localStorage \<Rightarrow> localStorage" where
  "savePresentation slideArray st =
     (case sanitizeSlidesForStorage slideArray of
        None \<Rightarrow> st
      | Some cleanSlides \<Rightarrow>
          setItem PRESENTATION_STORAGE_KEY (JSON_stringify (JArr cleanSlides)) st)"

definition isValidSlide :: "jsval \<Rightarrow> bool" where
  "isValidSlide slide =
     (truthy slide \<and> typeof (getProp slide ''id'') = ''string''
      \<and> isArray (getProp slide ''elements''))"

definition loadPresentation :: "localStorage \<Rightarrow> jsval list option" where
  "loadPresentation st =
     (case st PRESENTATION_STORAGE_KEY of
        None \<Rightarrow> None
      | Some saved \<Rightarrow>
          (case JSON_parse saved of
             None \<Rightarrow> None
           | Some (JArr loaded) \<Rightarrow> if list_all isValidSlide loaded then Some loaded else None
           | Some other \<Rightarrow> None))"

subsection \<open>getSavedSlides, saveSlideToStorage\<close>









subsection \<open>What the persisted presentation holds\<close>

text \<open>
  The fixed field set, in the words of the specification: a stored slide has the fields
  \<open>id\<close>, \<open>backgroundColor\<close> and \<open>elements\<close>, a stored element the fields
  \<open>id\<close>, \<open>type\<close>, \<open>x\<close>, \<open>y\<close>, \<open>width\<close>, \<open>height\<close>, \<open>content\<close>,
  \<open>style\<close>, \<open>zIndex\<close>; each holds the JSON form of the field of the input, and a
  field the input does not have is not there.
\<close>

definition keptFields :: "string list \<Rightarrow> jsval \<Rightarrow> (string \<times> jsval) list" where
  "keptFields keys v =
     concat (map (\<lambda>k. if getProp v k = JUndefined then [] else [(k, toJSON (getProp v k))]) keys)"

definition storedElement :: "jsval \<Rightarrow> jsval" where
  "storedElement element =
     JObj (keptFields [''id'', ''type'', ''x'', ''y'', ''width'', ''height'', ''content'', ''style'', ''zIndex'']
             element)"

fun arrayItems :: "jsval \<Rightarrow> jsval list" where
  "arrayItems (JArr vs) = vs"
| "arrayItems v = []"

definition storedSlide :: "jsval \<Rightarrow> jsval" where
  "storedSlide slide =
     JObj (keptFields [''id'', ''backgroundColor''] slide
           @ [(''elements'', JArr (map storedElement (arrayItems (getProp slide ''elements''))))])"



definition passesShapeCheck :: "jsval \<Rightarrow> bool" where
  "passesShapeCheck slide = (truthy (getProp slide ''id'') \<and> isArray (getProp slide ''elements''))"

section \<open>Template population (populateTemplate)\<close>

record Agent =
  name_a :: string
  phone :: string
  email :: string

record RealEstateData =
  address :: string
  price :: string
  bedrooms :: int
  bathrooms :: int
  sqft :: int
  yearBuilt :: int
  propertyType :: string
  description :: string
  agent :: Agent
  images :: "string list"

text \<open>
  \<open>Number.prototype.toString\<close> on a whole number. \<open>toLocaleString\<close> depends on
  the locale of the browser and is a parameter of \<open>populateTemplate\<close>;
  \<open>toLocaleString_enUS\<close> is its en-US instance, digits grouped in threes by commas.
\<close>

definition numberToString :: "int \<Rightarrow> string" where
  "numberToString n = (if n < 0 then ''-'' @ decimal (nat (- n)) else decimal (nat n))"

function groupDigits :: "string \<Rightarrow> string" where
  "groupDigits ds =
     (if length ds \<le> 3 then ds
      else groupDigits (take (length ds - 3) ds) @ '','' @ drop (length ds - 3) ds)"
  by pat_completeness auto
termination
  by (relation "measure length") auto

declare groupDigits.simps [simp del]

definition toLocaleString_enUS :: "int \<Rightarrow> string" where
  "toLocaleString_enUS n =
     (if n < 0 then ''-'' @ groupDigits (decimal (nat (- n))) else groupDigits (decimal (nat n)))"

text \<open>The table \<open>replacements\<close>, in the order \<open>Object.entries\<close> walks it.\<close>

definition replacements :: "(int \<Rightarrow> string) \<Rightarrow> RealEstateData \<Rightarrow> (string \<times> string) list" where
  "replacements toLocaleString d =
     [(''{{address}}'', address d),
      (''{{price}}'', price d),
      (''{{bedrooms}}'', numberToString (bedrooms d)),
      (''{{bathrooms}}'', numberToString (bathrooms d)),
      (''{{sqft}}'', toLocaleString (sqft d)),
      (''{{yearBuilt}}'', numberToString (yearBuilt d)),
      (''{{propertyType}}'', propertyType d),
      (''{{description}}'', description d),
      (''{{agent.name}}'', name_a (agent d)),
      (''{{agent.phone}}'', phone (agent d)),
      (''{{agent.email}}'', email (agent d))]"

subsection \<open>Strings and regular expressions\<close>

definition startsWith :: "string \<Rightarrow> string \<Rightarrow> bool" where
  "startsWith s p = (take (length p) s = p)"

fun includes_str :: "string \<Rightarrow> string \<Rightarrow> bool" where
  "includes_str [] sub = (sub = [])"
| "includes_str (c # cs) sub = (startsWith (c # cs) sub \<or> includes_str cs sub)"

text \<open>
  \<open>new RegExp(placeholder, "g")\<close> compiles the placeholder text as a pattern. In the
  eleven placeholders every character is a letter, a brace or a dot. A letter stands for
  itself; so does a brace, since none of them opens a quantifier \<open>{n}\<close>; a dot is the
  wildcard that matches every character but a line terminator.
\<close>

datatype atom = Lit char | AnyChar

definition compile :: "string \<Rightarrow> atom list" where
  "compile placeholder = map (\<lambda>c. if c = CHR ''.'' then AnyChar else Lit c) placeholder"

definition isLineTerminator :: "char \<Rightarrow> bool" where
  "isLineTerminator c = (c = CHR 0x0A \<or> c = CHR 0x0D)"

fun matchAtom :: "atom \<Rightarrow> char \<Rightarrow> bool" where
  "matchAtom (Lit a) c = (a = c)"
| "matchAtom AnyChar c = (\<not> isLineTerminator c)"

text \<open>\<open>matchHere p s\<close>: the pattern matches at the start of \<open>s\<close>; the result is the
  matched text and what follows it.\<close>

fun matchHere :: "atom list \<Rightarrow> string \<Rightarrow> (string \<times> string) option" where
  "matchHere [] s = Some ([], s)"
| "matchHere (a # as) [] = None"
| "matchHere (a # as) (c # cs) =
     (if matchAtom a c
      then (case matchHere as cs of None \<Rightarrow> None | Some (m, r) \<Rightarrow> Some (c # m, r))
      else None)"

text \<open>
  The replacement text of \<open>String.prototype.replace\<close> is not inserted as it is:
  \<open>$$\<close> is a dollar sign, \<open>$&\<close> the matched text, \<open>$`\<close> the text before the
  match and \<open>$'\<close> the text after it. The patterns have no groups, so \<open>$1\<close> and the
  like stay as they are.
\<close>

fun expand :: "string \<Rightarrow> string \<Rightarrow> string \<Rightarrow> string \<Rightarrow> string" where
  "expand m preceding following [] = []"
| "expand m preceding following [c] = [c]"
| "expand m preceding following (c # d # cs) =
     (if c = CHR ''$'' then
        (if d = CHR ''$'' then CHR ''$'' # expand m preceding following cs
         else if d = CHR ''&'' then m @ expand m preceding following cs
         else if d = CHR 0x60 then preceding @ expand m preceding following cs
         else if d = CHR 0x27 then following @ expand m preceding following cs
         else c # expand m preceding following (d # cs))
      else c # expand m preceding following (d # cs))"

lemma matchHere_split: "matchHere p s = Some (m, r) \<Longrightarrow> s = m @ r"
  by (induction p s arbitrary: m r rule: matchHere.induct) (auto split: if_splits option.splits)

text \<open>
  \<open>s.replace(regex, replacement)\<close> with the global flag, scanning from the left;
  \<open>preceding\<close> is the part of the subject already passed. After an empty match the scan
  moves on by one character.
\<close>

function replaceAll :: "atom list \<Rightarrow> string \<Rightarrow> string \<Rightarrow> string \<Rightarrow> string" where
  "replaceAll p replacement preceding s =
     (case matchHere p s of
        Some (m, r) \<Rightarrow>
          if m = [] then
            expand m preceding s replacement
            @ (case s of [] \<Rightarrow> [] | c # cs \<Rightarrow> c # replaceAll p replacement (preceding @ [c]) cs)
          else expand m preceding r replacement @ replaceAll p replacement (preceding @ m) r
      | None \<Rightarrow>
          (case s of [] \<Rightarrow> [] | c # cs \<Rightarrow> c # replaceAll p replacement (preceding @ [c]) cs))"
  by pat_completeness auto
termination
proof (relation "measure (\<lambda>(p, replacement, preceding, s). length s)")
  fix p :: "atom list" and replacement preceding s :: string and x2 :: "string \<times> string" and m r
  assume "matchHere p s = Some x2" "(m, r) = x2" "m \<noteq> []"
  then have "s = m @ r"
    by (auto dest: matchHere_split)
  with \<open>m \<noteq> []\<close> show "((p, replacement, preceding @ m, r), (p, replacement, preceding, s))
      \<in> measure (\<lambda>(p, replacement, preceding, s). length s)"
    by simp
qed auto

declare replaceAll.simps [simp del]

text \<open>
  \<open>content.match(/{{images\[(\d+)\]}}/)\<close>: the leftmost place where
  \<open>{{images[\<close>, one or more decimal digits and \<open>]}}\<close> follow one another; the
  result is the digits. \<open>parseInt\<close> reads them in base ten.
\<close>

definition isDigit :: "char \<Rightarrow> bool" where
  "isDigit c = (c \<in> set ''0123456789'')"

definition matchImageHere :: "string \<Rightarrow> string option" where
  "matchImageHere s =
     (if startsWith s ''{{images['' then
        (let r = drop 9 s; ds = takeWhile isDigit r in
         if ds \<noteq> [] \<and> startsWith (dropWhile isDigit r) '']}}'' then Some ds else None)
      else None)"

fun matchImage :: "string \<Rightarrow> string option" where
  "matchImage [] = None"
| "matchImage (c # cs) =
     (case matchImageHere (c # cs) of Some ds \<Rightarrow> Some ds | None \<Rightarrow> matchImage cs)"

definition digitValue :: "char \<Rightarrow> nat" where
  "digitValue c = of_char c - 48"

definition parseInt :: "string \<Rightarrow> nat" where
  "parseInt ds = foldl (\<lambda>n c. 10 * n + digitValue c) 0 ds"

subsection \<open>populateTemplate\<close>

text \<open>
  \<open>populateElement\<close> is the function mapped over the elements. \<open>!element.content\<close>
  holds for a missing content and for the empty string. \<open>data.images[imageIndex]\<close>
  is tested for truthiness: the index must exist and the string there must not be empty.
\<close>

definition populateElement :: "(int \<Rightarrow> string) \<Rightarrow> RealEstateData \<Rightarrow> SlideElement \<Rightarrow> SlideElement" where
  "populateElement toLocaleString d element =
     (case content element of
        None \<Rightarrow> element
      | Some c \<Rightarrow>
          if c = [] then element
          else
            (let populatedContent =
               (if type_e element = Image \<and> includes_str c ''{{images['' then
                  (case matchImage c of
                     None \<Rightarrow> c
                   | Some digits \<Rightarrow>
                       (let imageIndex = parseInt digits in
                        if imageIndex < length (images d) \<and> images d ! imageIndex \<noteq> []
                        then images d ! imageIndex
                        else c))
                else
                  foldl (\<lambda>populated (placeholder, v). replaceAll (compile placeholder) v [] populated)
                    c (replacements toLocaleString d))
             in element\<lparr>content := Some populatedContent\<rparr>))"

definition populateTemplate :: "(int \<Rightarrow> string) \<Rightarrow> Slide \<Rightarrow> RealEstateData \<Rightarrow> Slide" where
  "populateTemplate toLocaleString slide d =
     slide\<lparr>elements := map (populateElement toLocaleString d) (elements slide)\<rparr>"

text \<open>The record of src/data/mockData.ts, which App.tsx passes.\<close>

definition mockRealEstateData :: RealEstateData where
  "mockRealEstateData =
     \<lparr>address = ''1234 Oak Street, Beverly Hills, CA 90210'',
      price = ''$2,500,000'',
      bedrooms = 4,
      bathrooms = 3,
      sqft = 3200,
      yearBuilt = 2018,
      propertyType = ''Single Family Home'',
      description = ''Stunning modern home with open floor plan, high ceilings, and premium finishes throughout. Features a gourmet kitchen with stainless steel appliances, master suite with walk-in closet, and beautiful outdoor living space.'',
      agent = \<lparr>name_a = ''Sarah Johnson'', phone = ''(310) 555-0123'',
                email = ''sarah.johnson@realestate.com''\<rparr>,
      images =
        [''https://images.unsplash.com/photo-1564013799919-ab600027ffc6?w=800&h=600&fit=crop'',
         ''https://images.unsplash.com/photo-1570129477492-45c003edd2be?w=800&h=600&fit=crop'',
         ''https://images.unsplash.com/photo-1568605114967-8130f3a36994?w=800&h=600&fit=crop'']\<rparr>"

section \<open>Properties of the document store\<close>

text \<open>
  C1. For every slide sequence and every id, \<open>deleteSlide\<close> yields a non-empty slide
  sequence. When the sequence holds exactly one slide and that slide has the given id,
  the result is the one-element sequence holding the freshly synthesized empty slide
  (id generated from the clock, no elements, white background), and that slide is the
  selected one.
\<close>

theorem deleteSlide_never_empty:
  "slides (deleteSlide now slideId st) \<noteq> [] \<and>
   (\<forall>s. slides st = [s] \<and> id_s s = slideId \<longrightarrow>
      slides (deleteSlide now slideId st) =
        [\<lparr>id_s = ''slide-'' @ decimal now, elements = [], backgroundColor = Some ''#ffffff''\<rparr>] \<and>
      length (slides (deleteSlide now slideId st)) = 1 \<and>
      currentSlideId (deleteSlide now slideId st) = Some (''slide-'' @ decimal now))"
  by (auto simp: deleteSlide_def emptySlide_def Let_def)

theorem deleteSlide_never_empty_witness:
  "slides (deleteSlide 42 ''slide-1''
      \<lparr>slides = [\<lparr>id_s = ''slide-1'', elements = [], backgroundColor = None\<rparr>],
       currentSlideId = Some ''slide-1'', selectedElementId = None, isLoaded = True\<rparr>) =
     [\<lparr>id_s = ''slide-42'', elements = [], backgroundColor = Some ''#ffffff''\<rparr>]"
proof -
  have d: "decimal 42 = ''42''"
    by (simp add: decimal.simps digitChar_def)
  show ?thesis
    using deleteSlide_never_empty [of 42 "''slide-1''"
      "\<lparr>slides = [\<lparr>id_s = ''slide-1'', elements = [], backgroundColor = None\<rparr>],
        currentSlideId = Some ''slide-1'', selectedElementId = None, isLoaded = True\<rparr>"]
    by (simp add: d)
qed


text \<open>
  C9. When the slide sequence holds a slide with the given id and a slide with another
  id (under the data model's unique slide ids: at least one other slide),
  \<open>deleteSlide\<close> removes the slide with that id and keeps the others in order. If the
  removed slide was the selected one, the selected slide becomes the slide at index 0 of
  the sequence after the removal; otherwise the selected-slide id stays. The
  selected-element id becomes none in both cases.
\<close>

theorem deleteSlide_selection:
  assumes "\<exists>s \<in> set (slides st). id_s s = slideId"
    and "\<exists>s \<in> set (slides st). id_s s \<noteq> slideId"
  shows "slides (deleteSlide now slideId st) = filter (\<lambda>s. id_s s \<noteq> slideId) (slides st) \<and>
         (\<forall>s \<in> set (slides (deleteSlide now slideId st)). id_s s \<noteq> slideId) \<and>
         length (slides (deleteSlide now slideId st)) < length (slides st) \<and>
         (currentSlideId st = Some slideId \<longrightarrow>
            currentSlideId (deleteSlide now slideId st) =
              Some (id_s (slides (deleteSlide now slideId st) ! 0))) \<and>
         (currentSlideId st \<noteq> Some slideId \<longrightarrow>
            currentSlideId (deleteSlide now slideId st) = currentSlideId st) \<and>
         selectedElementId (deleteSlide now slideId st) = None"
proof -
  let ?filtered = "filter (\<lambda>s. id_s s \<noteq> slideId) (slides st)"
  from assms(2) have ne: "?filtered \<noteq> []"
    by (auto simp: filter_empty_conv)
  from assms(1) have shorter: "length ?filtered < length (slides st)"
    by (auto intro: length_filter_less)
  from ne have sl: "slides (deleteSlide now slideId st) = ?filtered"
    by (simp add: deleteSlide_def Let_def)
  from ne have cur: "currentSlideId (deleteSlide now slideId st) =
      (if Some slideId = currentSlideId st then Some (id_s (?filtered ! 0)) else currentSlideId st)"
    by (simp add: deleteSlide_def Let_def)
  have sel: "selectedElementId (deleteSlide now slideId st) = None"
    by (simp add: deleteSlide_def Let_def)
  from sl cur sel shorter show ?thesis
    by auto
qed

theorem deleteSlide_selection_witness:
  "slides (deleteSlide 42 ''b''
      \<lparr>slides = [\<lparr>id_s = ''a'', elements = [], backgroundColor = None\<rparr>,
                 \<lparr>id_s = ''b'', elements = [], backgroundColor = None\<rparr>,
                 \<lparr>id_s = ''c'', elements = [], backgroundColor = None\<rparr>],
       currentSlideId = Some ''b'', selectedElementId = Some ''e'', isLoaded = True\<rparr>) =
     [\<lparr>id_s = ''a'', elements = [], backgroundColor = None\<rparr>,
      \<lparr>id_s = ''c'', elements = [], backgroundColor = None\<rparr>] \<and>
   currentSlideId (deleteSlide 42 ''b''
      \<lparr>slides = [\<lparr>id_s = ''a'', elements = [], backgroundColor = None\<rparr>,
                 \<lparr>id_s = ''b'', elements = [], backgroundColor = None\<rparr>,
                 \<lparr>id_s = ''c'', elements = [], backgroundColor = None\<rparr>],
       currentSlideId = Some ''b'', selectedElementId = Some ''e'', isLoaded = True\<rparr>) = Some ''a''"
  using deleteSlide_selection [of
      "\<lparr>slides = [\<lparr>id_s = ''a'', elements = [], backgroundColor = None\<rparr>,
                  \<lparr>id_s = ''b'', elements = [], backgroundColor = None\<rparr>,
                  \<lparr>id_s = ''c'', elements = [], backgroundColor = None\<rparr>],
        currentSlideId = Some ''b'', selectedElementId = Some ''e'', isLoaded = True\<rparr>"
      "''b''" 42]
  by simp

subsection \<open>Stacking order\<close>

lemma mathMax_None: "mathMax zs = None \<longleftrightarrow> zs = []"
  by (cases zs) (auto split: option.splits)

lemma mathMax_upper: "mathMax zs = Some m \<Longrightarrow> z \<in> set zs \<Longrightarrow> z \<le> m"
  by (induction zs arbitrary: m) (auto split: option.splits simp: mathMax_None)

lemma mathMax_mem: "mathMax zs = Some m \<Longrightarrow> m \<in> set zs"
  by (induction zs arbitrary: m) (auto split: option.splits if_splits simp: max_def)

lemma mathMin_None: "mathMin zs = None \<longleftrightarrow> zs = []"
  by (cases zs) (auto split: option.splits)

lemma mathMin_lower: "mathMin zs = Some m \<Longrightarrow> z \<in> set zs \<Longrightarrow> m \<le> z"
  by (induction zs arbitrary: m) (auto split: option.splits simp: mathMin_None)

lemma mathMin_mem: "mathMin zs = Some m \<Longrightarrow> m \<in> set zs"
  by (induction zs arbitrary: m) (auto split: option.splits if_splits simp: min_def)

lemma ulp_small: "n < 9007199254740992 \<Longrightarrow> ulp n = 1"
  by (simp add: ulp.simps [of n])

lemma ulp_2_53: "ulp 9007199254740992 = 2"
  by (simp add: ulp.simps [of 9007199254740992] ulp_small)

lemma roundDouble_exact:
  assumes "\<bar>x\<bar> \<le> 9007199254740992"
  shows "roundDouble x = x"
proof (cases "\<bar>x\<bar> < 9007199254740992")
  case True
  then have "ulp \<bar>x\<bar> = 1"
    by (rule ulp_small)
  then show ?thesis
    by (simp add: roundDouble_def)
next
  case False
  with assms have "\<bar>x\<bar> = 9007199254740992" by simp
  then have "x = 9007199254740992 \<or> x = - 9007199254740992" by linarith
  then show ?thesis
    by (auto simp: roundDouble_def ulp_2_53)
qed

lemma roundDouble_2_53_plus_1: "roundDouble 9007199254740993 = 9007199254740992"
proof -
  have "ulp 9007199254740993 = 2"
    by (simp add: ulp.simps [of 9007199254740993] ulp_small)
  then show ?thesis
    by (simp add: roundDouble_def)
qed

lemma zIndexOr0_update: "zIndexOr0 (x\<lparr>zIndex := Some z\<rparr>) = z"
  by (simp add: zIndexOr0_def)

lemma restack_mem:
  "x \<in> set (restack elementId z es) \<longleftrightarrow>
   (\<exists>y \<in> set es. x = (if id_e y = elementId then y\<lparr>zIndex := Some z\<rparr> else y))"
  unfolding restack_def set_map image_iff ..

lemma restack_other:
  assumes "id_e x \<noteq> elementId"
  shows "x \<in> set (restack elementId z es) \<longleftrightarrow> x \<in> set es"
proof
  assume "x \<in> set (restack elementId z es)"
  then obtain y where y: "y \<in> set es"
    and x: "x = (if id_e y = elementId then y\<lparr>zIndex := Some z\<rparr> else y)"
    unfolding restack_mem by blast
  show "x \<in> set es"
  proof (cases "id_e y = elementId")
    case True
    with x have "id_e x = elementId" by simp
    with assms show ?thesis by simp
  next
    case False
    with x y show ?thesis by simp
  qed
next
  assume "x \<in> set es"
  with assms show "x \<in> set (restack elementId z es)"
    unfolding restack_mem by (intro bexI [of _ x]) simp_all
qed

lemma restack_zIndex:
  assumes "x \<in> set (restack elementId z es)"
  shows "zIndexOr0 x = z \<or> x \<in> set es"
proof -
  from assms obtain y where y: "y \<in> set es"
    and x: "x = (if id_e y = elementId then y\<lparr>zIndex := Some z\<rparr> else y)"
    unfolding restack_mem by blast
  show ?thesis
  proof (cases "id_e y = elementId")
    case True
    with x have "x = y\<lparr>zIndex := Some z\<rparr>" by simp
    then show ?thesis by (simp add: zIndexOr0_update)
  next
    case False
    with x y show ?thesis by simp
  qed
qed

lemma restack_target:
  assumes "x \<in> set (restack elementId z es)" and "id_e x = elementId"
  shows "zIndexOr0 x = z"
proof -
  from assms(1) obtain y where y: "y \<in> set es"
    and x: "x = (if id_e y = elementId then y\<lparr>zIndex := Some z\<rparr> else y)"
    unfolding restack_mem by blast
  show ?thesis
  proof (cases "id_e y = elementId")
    case True
    with x have "x = y\<lparr>zIndex := Some z\<rparr>" by simp
    then show ?thesis by (simp add: zIndexOr0_update)
  next
    case False
    with x assms(2) show ?thesis by simp
  qed
qed

lemma frontElements_Some:
  "mathMax (map zIndexOr0 xs) = Some m \<Longrightarrow>
   frontElements elementId xs = restack elementId (jsPlus m 1) xs"
  by (simp add: frontElements_def)

lemma backElements_Some:
  "mathMin (map zIndexOr0 xs) = Some m \<Longrightarrow>
   backElements elementId xs = restack elementId (jsMinus m 1) xs"
  by (simp add: backElements_def)

lemma others_kept:
  assumes "id_e x \<noteq> elementId"
  shows "x \<in> set (frontElements elementId xs) \<longleftrightarrow> x \<in> set xs"
    and "x \<in> set (backElements elementId xs) \<longleftrightarrow> x \<in> set xs"
proof -
  show "x \<in> set (frontElements elementId xs) \<longleftrightarrow> x \<in> set xs"
  proof (cases "mathMax (map zIndexOr0 xs)")
    case None
    then show ?thesis by (simp add: frontElements_def)
  next
    case (Some m)
    from frontElements_Some [OF Some] restack_other [OF assms] show ?thesis
      by simp
  qed
  show "x \<in> set (backElements elementId xs) \<longleftrightarrow> x \<in> set xs"
  proof (cases "mathMin (map zIndexOr0 xs)")
    case None
    then show ?thesis by (simp add: backElements_def)
  next
    case (Some m)
    from backElements_Some [OF Some] restack_other [OF assms] show ?thesis
      by simp
  qed
qed

lemma mathMax_obtain:
  assumes "y \<in> set xs"
  obtains m x where "mathMax (map zIndexOr0 xs) = Some m" "x \<in> set xs" "m = zIndexOr0 x"
    "zIndexOr0 y \<le> m"
proof -
  from assms obtain m where m: "mathMax (map zIndexOr0 xs) = Some m"
    by (cases "mathMax (map zIndexOr0 xs)") (auto simp: mathMax_None)
  from mathMax_mem [OF m] obtain x where "x \<in> set xs" "m = zIndexOr0 x"
    by (auto simp: image_iff)
  moreover from mathMax_upper [OF m, of "zIndexOr0 y"] assms have "zIndexOr0 y \<le> m"
    by simp
  ultimately show thesis
    using m that by blast
qed

lemma mathMin_obtain:
  assumes "y \<in> set xs"
  obtains m x where "mathMin (map zIndexOr0 xs) = Some m" "x \<in> set xs" "m = zIndexOr0 x"
    "m \<le> zIndexOr0 y"
proof -
  from assms obtain m where m: "mathMin (map zIndexOr0 xs) = Some m"
    by (cases "mathMin (map zIndexOr0 xs)") (auto simp: mathMin_None)
  from mathMin_mem [OF m] obtain x where "x \<in> set xs" "m = zIndexOr0 x"
    by (auto simp: image_iff)
  moreover from mathMin_lower [OF m, of "zIndexOr0 y"] assms have "m \<le> zIndexOr0 y"
    by simp
  ultimately show thesis
    using m that by blast
qed

text \<open>One stage at a time, on any element list.\<close>

lemma front_stage:
  assumes range: "\<And>x. x \<in> set xs \<Longrightarrow> - 9007199254740992 \<le> zIndexOr0 x \<and> zIndexOr0 x < 9007199254740992"
    and y: "y \<in> set xs"
  obtains m where "frontElements elementId xs = restack elementId (m + 1) xs"
    "zIndexOr0 y \<le> m" "- 9007199254740992 \<le> m" "m < 9007199254740992"
proof -
  from y obtain m x where m: "mathMax (map zIndexOr0 xs) = Some m" and x: "x \<in> set xs"
    "m = zIndexOr0 x" and ym: "zIndexOr0 y \<le> m"
    by (rule mathMax_obtain)
  from range [OF x(1)] x(2) have b: "- 9007199254740992 \<le> m" "m < 9007199254740992"
    by simp_all
  then have "\<bar>m + 1\<bar> \<le> 9007199254740992"
    by linarith
  then have "jsPlus m 1 = m + 1"
    unfolding jsPlus_def by (rule roundDouble_exact)
  with frontElements_Some [OF m, of elementId]
  have "frontElements elementId xs = restack elementId (m + 1) xs"
    by (simp only:)
  with ym b show thesis
    using that by blast
qed

lemma back_stage:
  assumes range: "\<And>x. x \<in> set xs \<Longrightarrow> - 9007199254740992 < zIndexOr0 x \<and> zIndexOr0 x \<le> 9007199254740992"
    and y: "y \<in> set xs"
  obtains m where "backElements elementId xs = restack elementId (m - 1) xs"
    "m \<le> zIndexOr0 y" "- 9007199254740992 < m"
proof -
  from y obtain m x where m: "mathMin (map zIndexOr0 xs) = Some m" and x: "x \<in> set xs"
    "m = zIndexOr0 x" and ym: "m \<le> zIndexOr0 y"
    by (rule mathMin_obtain)
  from range [OF x(1)] x(2) have b: "- 9007199254740992 < m" "m \<le> 9007199254740992"
    by simp_all
  then have "\<bar>m - 1\<bar> \<le> 9007199254740992"
    by linarith
  then have "jsMinus m 1 = m - 1"
    unfolding jsMinus_def by (rule roundDouble_exact)
  with backElements_Some [OF m, of elementId]
  have "backElements elementId xs = restack elementId (m - 1) xs"
    by (simp only:)
  with ym b show thesis
    using that by blast
qed

lemma front_back_front_elements:
  assumes safe: "\<forall>x \<in> set es. \<bar>zIndexOr0 x\<bar> < 9007199254740992"
    and e: "e \<in> set (frontElements elementId (backElements elementId (frontElements elementId es)))"
           "id_e e = elementId"
    and e': "e' \<in> set (frontElements elementId (backElements elementId (frontElements elementId es)))"
            "id_e e' \<noteq> elementId"
  shows "zIndexOr0 e' < zIndexOr0 e"
proof -
  define es1 where "es1 = frontElements elementId es"
  define es2 where "es2 = backElements elementId es1"
  define es3 where "es3 = frontElements elementId es2"
  from e'(1) have "e' \<in> set es3"
    by (simp only: es1_def es2_def es3_def)
  with others_kept(1) [OF e'(2), of es2] have e'2: "e' \<in> set es2"
    by (simp only: es3_def)
  with others_kept(2) [OF e'(2), of es1] have e'1: "e' \<in> set es1"
    by (simp only: es2_def)
  with others_kept(1) [OF e'(2), of es] have e'0: "e' \<in> set es"
    by (simp only: es1_def)
  from safe e'0 have ze': "\<bar>zIndexOr0 e'\<bar> < 9007199254740992"
    by (rule bspec)
  have range0: "- 9007199254740992 \<le> zIndexOr0 x \<and> zIndexOr0 x < 9007199254740992"
    if "x \<in> set es" for x
  proof -
    from safe that have "\<bar>zIndexOr0 x\<bar> < 9007199254740992"
      by (rule bspec)
    then show ?thesis by linarith
  qed
  \<comment> \<open>first bringToFront\<close>
  from range0 e'0 obtain m1 where es1: "es1 = restack elementId (m1 + 1) es"
    and m1: "- 9007199254740992 \<le> m1" "m1 < 9007199254740992"
    unfolding es1_def by (rule front_stage)
  have range1: "- 9007199254740992 < zIndexOr0 x \<and> zIndexOr0 x \<le> 9007199254740992"
    if "x \<in> set es1" for x
  proof -
    from that restack_zIndex [of x elementId "m1 + 1" es]
    have "zIndexOr0 x = m1 + 1 \<or> x \<in> set es"
      by (simp only: es1)
    then show ?thesis
    proof
      assume "zIndexOr0 x = m1 + 1"
      with m1 show ?thesis by linarith
    next
      assume "x \<in> set es"
      from safe this have "\<bar>zIndexOr0 x\<bar> < 9007199254740992"
        by (rule bspec)
      then show ?thesis by linarith
    qed
  qed
  \<comment> \<open>sendToBack\<close>
  from range1 e'1 obtain m2 where es2: "es2 = restack elementId (m2 - 1) es1"
    and m2: "m2 \<le> zIndexOr0 e'" "- 9007199254740992 < m2"
    unfolding es2_def by (rule back_stage)
  have range2: "- 9007199254740992 \<le> zIndexOr0 x \<and> zIndexOr0 x < 9007199254740992"
    if "x \<in> set es2" for x
  proof (cases "id_e x = elementId")
    case True
    from restack_target [of x elementId "m2 - 1" es1] that True
    have "zIndexOr0 x = m2 - 1"
      by (simp only: es2)
    with m2 ze' show ?thesis
      by linarith
  next
    case False
    from that others_kept(2) [OF False, of es1] have "x \<in> set es1"
      by (simp only: es2_def)
    with others_kept(1) [OF False, of es] have "x \<in> set es"
      by (simp only: es1_def)
    then show ?thesis
      by (rule range0)
  qed
  \<comment> \<open>second bringToFront\<close>
  from range2 e'2 obtain m3 where es3: "es3 = restack elementId (m3 + 1) es2"
    and m3: "zIndexOr0 e' \<le> m3"
    unfolding es3_def by (rule front_stage)
  from e(1) have "e \<in> set es3"
    by (simp only: es1_def es2_def es3_def)
  with restack_target [of e elementId "m3 + 1" es2] e(2) have "zIndexOr0 e = m3 + 1"
    by (simp only: es3)
  with m3 show ?thesis
    by linarith
qed

lemma bringToFront_slides:
  "slides (bringToFront slideId elementId st) =
     map (\<lambda>slide. if id_s slide \<noteq> slideId then slide
                   else slide\<lparr>elements := frontElements elementId (elements slide)\<rparr>) (slides st)"
proof -
  have "(case mathMax (map zIndexOr0 (elements slide)) of
           None \<Rightarrow> slide
         | Some maxZIndex \<Rightarrow>
             slide\<lparr>elements :=
               map (\<lambda>element. if id_e element = elementId
                                then element\<lparr>zIndex := Some (jsPlus maxZIndex 1)\<rparr>
                                else element) (elements slide)\<rparr>) =
        slide\<lparr>elements := frontElements elementId (elements slide)\<rparr>" for slide :: Slide
    by (cases "mathMax (map zIndexOr0 (elements slide))") (simp_all add: frontElements_def restack_def)
  then show ?thesis
    by (simp add: bringToFront_def)
qed

lemma sendToBack_slides:
  "slides (sendToBack slideId elementId st) =
     map (\<lambda>slide. if id_s slide \<noteq> slideId then slide
                   else slide\<lparr>elements := backElements elementId (elements slide)\<rparr>) (slides st)"
proof -
  have "(case mathMin (map zIndexOr0 (elements slide)) of
           None \<Rightarrow> slide
         | Some minZIndex \<Rightarrow>
             slide\<lparr>elements :=
               map (\<lambda>element. if id_e element = elementId
                                then element\<lparr>zIndex := Some (jsMinus minZIndex 1)\<rparr>
                                else element) (elements slide)\<rparr>) =
        slide\<lparr>elements := backElements elementId (elements slide)\<rparr>" for slide :: Slide
    by (cases "mathMin (map zIndexOr0 (elements slide))") (simp_all add: backElements_def restack_def)
  then show ?thesis
    by (simp add: sendToBack_def)
qed

lemma front_back_front_slide:
  assumes "s3 \<in> set (slides (bringToFront slideId elementId
                      (sendToBack slideId elementId (bringToFront slideId elementId st))))"
    and "id_s s3 = slideId"
  obtains s where "s \<in> set (slides st)" "id_s s = slideId"
    "elements s3 = frontElements elementId (backElements elementId (frontElements elementId (elements s)))"
proof -
  define F where "F = (\<lambda>slide::Slide. if id_s slide \<noteq> slideId then slide
                   else slide\<lparr>elements := frontElements elementId (elements slide)\<rparr>)"
  define B where "B = (\<lambda>slide::Slide. if id_s slide \<noteq> slideId then slide
                   else slide\<lparr>elements := backElements elementId (elements slide)\<rparr>)"
  have sl: "slides (bringToFront slideId elementId
                      (sendToBack slideId elementId (bringToFront slideId elementId st))) =
            map F (map B (map F (slides st)))"
    unfolding bringToFront_slides sendToBack_slides F_def B_def ..
  have idF: "id_s (F x) = id_s x" and idB: "id_s (B x) = id_s x" for x
    by (simp_all add: F_def B_def)
  from assms(1) obtain s where s: "s \<in> set (slides st)" and s3: "s3 = F (B (F s))"
    unfolding sl by auto
  from assms(2) s3 have sid: "id_s s = slideId"
    by (simp add: idF idB)
  then have "elements (F (B (F s))) =
      frontElements elementId (backElements elementId (frontElements elementId (elements s)))"
    by (simp add: F_def B_def)
  with s sid s3 show thesis
    using that by blast
qed

text \<open>
  C7, as the code has it. Take a slide whose z-indices (absent read as 0) are safe
  integers, below \<open>2^53\<close> in size. After \<open>bringToFront\<close>, \<open>sendToBack\<close>,
  \<open>bringToFront\<close> on the same element of that slide, with nothing in between, that
  element's z-index is strictly greater than the z-index of every other element of the
  slide, that is of every element with another id.
\<close>

theorem front_back_front_on_top:
  assumes "\<forall>s \<in> set (slides st). id_s s = slideId \<longrightarrow>
             (\<forall>x \<in> set (elements s). \<bar>zIndexOr0 x\<bar> < 9007199254740992)"
  shows "\<forall>s \<in> set (slides (bringToFront slideId elementId
                      (sendToBack slideId elementId (bringToFront slideId elementId st)))).
     id_s s = slideId \<longrightarrow>
     (\<forall>e \<in> set (elements s). \<forall>e' \<in> set (elements s).
        id_e e = elementId \<and> id_e e' \<noteq> elementId \<longrightarrow> zIndexOr0 e' < zIndexOr0 e)"
proof (intro ballI impI, elim conjE)
  fix s3 e e'
  assume s3: "s3 \<in> set (slides (bringToFront slideId elementId
                      (sendToBack slideId elementId (bringToFront slideId elementId st))))"
    "id_s s3 = slideId"
    and e: "e \<in> set (elements s3)" "id_e e = elementId"
    and e': "e' \<in> set (elements s3)" "id_e e' \<noteq> elementId"
  from s3 obtain s where s: "s \<in> set (slides st)" "id_s s = slideId"
    and els: "elements s3 =
      frontElements elementId (backElements elementId (frontElements elementId (elements s)))"
    by (rule front_back_front_slide)
  from assms s have safe: "\<forall>x \<in> set (elements s). \<bar>zIndexOr0 x\<bar> < 9007199254740992"
    by blast
  from e(1) e'(1) show "zIndexOr0 e' < zIndexOr0 e"
    unfolding els by (rule front_back_front_elements [OF safe _ e(2) _ e'(2)])
qed

theorem front_back_front_on_top_witness:
  "slides (bringToFront ''s'' ''a'' (sendToBack ''s'' ''a'' (bringToFront ''s'' ''a''
      \<lparr>slides = [\<lparr>id_s = ''s'', elements =
          [\<lparr>id_e = ''a'', type_e = Text, x_e = 0, y_e = 0, width_e = 10, height_e = 10,
            content = None, style = None, zIndex = None\<rparr>,
           \<lparr>id_e = ''b'', type_e = Shape, x_e = 5, y_e = 5, width_e = 10, height_e = 10,
            content = None, style = None, zIndex = Some 5\<rparr>], backgroundColor = None\<rparr>],
       currentSlideId = Some ''s'', selectedElementId = Some ''a'', isLoaded = True\<rparr>))) =
     [\<lparr>id_s = ''s'', elements =
          [\<lparr>id_e = ''a'', type_e = Text, x_e = 0, y_e = 0, width_e = 10, height_e = 10,
            content = None, style = None, zIndex = Some 6\<rparr>,
           \<lparr>id_e = ''b'', type_e = Shape, x_e = 5, y_e = 5, width_e = 10, height_e = 10,
            content = None, style = None, zIndex = Some 5\<rparr>], backgroundColor = None\<rparr>] \<and>
   zIndexOr0 \<lparr>id_e = ''b'', type_e = Shape, x_e = 5, y_e = 5, width_e = 10, height_e = 10,
            content = None, style = None, zIndex = Some 5\<rparr>
   < zIndexOr0 \<lparr>id_e = ''a'', type_e = Text, x_e = 0, y_e = 0, width_e = 10, height_e = 10,
            content = None, style = None, zIndex = Some 6\<rparr>"
proof -
  let ?st = "\<lparr>slides = [\<lparr>id_s = ''s'', elements =
          [\<lparr>id_e = ''a'', type_e = Text, x_e = 0, y_e = 0, width_e = 10, height_e = 10,
            content = None, style = None, zIndex = None\<rparr>,
           \<lparr>id_e = ''b'', type_e = Shape, x_e = 5, y_e = 5, width_e = 10, height_e = 10,
            content = None, style = None, zIndex = Some 5\<rparr>], backgroundColor = None\<rparr>],
       currentSlideId = Some ''s'', selectedElementId = Some ''a'', isLoaded = True\<rparr>"
  have safe: "\<forall>s \<in> set (slides ?st). id_s s = ''s'' \<longrightarrow>
             (\<forall>x \<in> set (elements s). \<bar>zIndexOr0 x\<bar> < 9007199254740992)"
    by (simp add: zIndexOr0_def)
  have run: "slides (bringToFront ''s'' ''a'' (sendToBack ''s'' ''a'' (bringToFront ''s'' ''a'' ?st))) =
     [\<lparr>id_s = ''s'', elements =
          [\<lparr>id_e = ''a'', type_e = Text, x_e = 0, y_e = 0, width_e = 10, height_e = 10,
            content = None, style = None, zIndex = Some 6\<rparr>,
           \<lparr>id_e = ''b'', type_e = Shape, x_e = 5, y_e = 5, width_e = 10, height_e = 10,
            content = None, style = None, zIndex = Some 5\<rparr>], backgroundColor = None\<rparr>]"
    by (simp add: bringToFront_def sendToBack_def zIndexOr0_def jsPlus_def jsMinus_def
          roundDouble_exact)
  from front_back_front_on_top [OF safe, of "''a''"] run show ?thesis
    by simp
qed


text \<open>
  Without the bound the claim fails: the code adds 1 to a double, and
  \<open>2^53 + 1\<close> is \<open>2^53\<close>. With a sibling at z-index \<open>2^53\<close> the element
  ends level with it.
\<close>

theorem front_back_front_level_counterexample:
  "slides (bringToFront ''s'' ''a'' (sendToBack ''s'' ''a'' (bringToFront ''s'' ''a''
      \<lparr>slides = [\<lparr>id_s = ''s'', elements =
          [\<lparr>id_e = ''a'', type_e = Text, x_e = 0, y_e = 0, width_e = 10, height_e = 10,
            content = None, style = None, zIndex = None\<rparr>,
           \<lparr>id_e = ''b'', type_e = Shape, x_e = 5, y_e = 5, width_e = 10, height_e = 10,
            content = None, style = None, zIndex = Some 9007199254740992\<rparr>],
          backgroundColor = None\<rparr>],
       currentSlideId = Some ''s'', selectedElementId = Some ''a'', isLoaded = True\<rparr>))) =
     [\<lparr>id_s = ''s'', elements =
          [\<lparr>id_e = ''a'', type_e = Text, x_e = 0, y_e = 0, width_e = 10, height_e = 10,
            content = None, style = None, zIndex = Some 9007199254740992\<rparr>,
           \<lparr>id_e = ''b'', type_e = Shape, x_e = 5, y_e = 5, width_e = 10, height_e = 10,
            content = None, style = None, zIndex = Some 9007199254740992\<rparr>],
          backgroundColor = None\<rparr>] \<and>
   \<not> zIndexOr0 \<lparr>id_e = ''b'', type_e = Shape, x_e = 5, y_e = 5, width_e = 10, height_e = 10,
            content = None, style = None, zIndex = Some 9007199254740992\<rparr>
     < zIndexOr0 \<lparr>id_e = ''a'', type_e = Text, x_e = 0, y_e = 0, width_e = 10, height_e = 10,
            content = None, style = None, zIndex = Some 9007199254740992\<rparr>"
  by (simp add: bringToFront_def sendToBack_def zIndexOr0_def jsPlus_def jsMinus_def
        roundDouble_exact roundDouble_2_53_plus_1)

subsection \<open>Rejected templates\<close>

text \<open>
  C5. A template value is a value \<open>addSlide\<close> takes as a given template, that is a
  truthy one (\<open>undefined\<close> is the omitted argument). For every store and every template
  value whose \<open>id\<close> is missing or whose \<open>elements\<close> is not an array,
  \<open>addSlide\<close> returns the store as it was: the slide sequence, the selected slide and
  the selected element are unchanged.
\<close>

theorem addSlide_rejects_malformed_template:
  assumes "truthy template"
    and "getProp template ''id'' = JUndefined \<or> \<not> isArray (getProp template ''elements'')"
  shows "addSlide now template st = Some st"
  using assms by (auto simp: addSlide_def)

theorem addSlide_rejects_malformed_template_witness:
  "addSlide 42 (JObj [(''type'', JStr ''click''), (''elements'', JArr [])])
     \<lparr>slides = [\<lparr>id_s = ''slide-1'', elements = [], backgroundColor = Some ''#ffffff''\<rparr>],
      currentSlideId = Some ''slide-1'', selectedElementId = None, isLoaded = True\<rparr> =
   Some \<lparr>slides = [\<lparr>id_s = ''slide-1'', elements = [], backgroundColor = Some ''#ffffff''\<rparr>],
      currentSlideId = Some ''slide-1'', selectedElementId = None, isLoaded = True\<rparr>"
  using addSlide_rejects_malformed_template [of
      "JObj [(''type'', JStr ''click''), (''elements'', JArr [])]" 42
      "\<lparr>slides = [\<lparr>id_s = ''slide-1'', elements = [], backgroundColor = Some ''#ffffff''\<rparr>],
        currentSlideId = Some ''slide-1'', selectedElementId = None, isLoaded = True\<rparr>"]
  by simp

subsection \<open>Element ids\<close>

lemma spreadUpdates_id:
  "u_id updates = None \<or> u_id updates = Some (id_e element) \<Longrightarrow>
   id_e (spreadUpdates element updates) = id_e element"
  by (auto simp: spreadUpdates_def overwrite_def)

lemma elementIds_updateElement:
  assumes "u_id updates = None \<or> u_id updates = Some elementId"
  shows "elementIds (updateElement slideId elementId updates st) = elementIds st"
proof -
  have "map id_e (map (\<lambda>element. if id_e element = elementId
                                    then spreadUpdates element updates else element) es) =
        map id_e es" for es :: "SlideElement list"
    using assms by (induction es) (auto simp: spreadUpdates_id)
  then show ?thesis
    by (simp add: elementIds_def updateElement_def comp_def)
qed

lemma elementIds_bringToFront:
  "elementIds (bringToFront slideId elementId st) = elementIds st"
proof -
  have "map id_e (map (\<lambda>element. if id_e element = elementId
                                    then element\<lparr>zIndex := z\<rparr> else element) es) =
        map id_e es" for es :: "SlideElement list" and z
    by (induction es) auto
  then show ?thesis
    by (simp add: elementIds_def bringToFront_def comp_def split: option.splits)
qed

lemma elementIds_sendToBack:
  "elementIds (sendToBack slideId elementId st) = elementIds st"
proof -
  have "map id_e (map (\<lambda>element. if id_e element = elementId
                                    then element\<lparr>zIndex := z\<rparr> else element) es) =
        map id_e es" for es :: "SlideElement list" and z
    by (induction es) auto
  then show ?thesis
    by (simp add: elementIds_def sendToBack_def comp_def split: option.splits)
qed

lemma allElements_addSlide:
  assumes "addSlide now template st = Some st'"
  shows "set (allElements st') \<subseteq> set (allElements st) \<union> set (introduced (AddSlide now template) st)"
  using assms
  by (auto simp: addSlide_def allElements_def emptySlide_def
           split: if_splits option.splits)

lemma allElements_deleteSlide:
  "set (allElements (deleteSlide now slideId st)) \<subseteq> set (allElements st)"
  by (auto simp: deleteSlide_def allElements_def emptySlide_def Let_def)

lemma allElements_duplicateSlide:
  "set (allElements (duplicateSlide now stamp slideId st)) \<subseteq>
   set (allElements st) \<union> set (introduced (DuplicateSlide now stamp slideId) st)"
proof (cases "findIndex (\<lambda>slide. id_s slide = slideId) (slides st)")
  case None
  then show ?thesis by (simp add: duplicateSlide_def)
next
  case (Some i)
  have "set (take (i + 1) (slides st)) \<subseteq> set (slides st)"
    and "set (drop (i + 1) (slides st)) \<subseteq> set (slides st)"
    by (rule set_take_subset, rule set_drop_subset)
  with Some show ?thesis
    by (auto simp: duplicateSlide_def allElements_def Let_def)
qed

lemma allElements_reorderSlides:
  assumes "reorderSlides dragIndex hoverIndex st = Some st'"
  shows "set (allElements st') \<subseteq> set (allElements st)"
proof -
  let ?d = "spliceStart dragIndex (length (slides st))"
  let ?removed = "take ?d (slides st) @ drop (?d + 1) (slides st)"
  let ?h = "spliceStart hoverIndex (length ?removed)"
  from assms have range: "0 \<le> dragIndex" "dragIndex < int (length (slides st))"
    and st': "slides st' = take ?h ?removed @ [slides st ! nat dragIndex] @ drop ?h ?removed"
    by (auto simp: reorderSlides_def Let_def split: if_splits)
  have rem: "set ?removed \<subseteq> set (slides st)"
    using set_take_subset [of ?d "slides st"] set_drop_subset [of "?d + 1" "slides st"]
    by auto
  have "set (take ?h ?removed) \<subseteq> set ?removed" "set (drop ?h ?removed) \<subseteq> set ?removed"
    by (rule set_take_subset, rule set_drop_subset)
  moreover from range have "slides st ! nat dragIndex \<in> set (slides st)"
    by (simp add: nat_less_iff)
  ultimately have "set (slides st') \<subseteq> set (slides st)"
    using rem st' by auto
  then show ?thesis
    by (auto simp: allElements_def)
qed

lemma allElements_addElement:
  "set (allElements (addElement slideId element st)) \<subseteq> set (allElements st) \<union> {element}"
  by (auto simp: addElement_def allElements_def split: if_splits)

lemma allElements_deleteElement:
  "set (allElements (deleteElement slideId elementId st)) \<subseteq> set (allElements st)"
  by (auto simp: deleteElement_def allElements_def split: if_splits)

text \<open>
  C8, as the code has it. \<open>updateElement\<close> spreads the whole update map over the
  matched element, so an \<open>id\<close> key in the map replaces the element id. With an update
  map that has no \<open>id\<close> key, or whose \<open>id\<close> is the element id passed (the canvas
  passes whole elements as updates), no operation of the store changes the id of an
  element that persists: the operations that rewrite elements in place
  (\<open>updateElement\<close>, \<open>bringToFront\<close>, \<open>sendToBack\<close>) leave the id at every
  position of every slide as it was, and after every other operation each element is an
  element of the store before, unchanged, or one the operation brought in.
\<close>

theorem element_ids_immutable:
  assumes "perform op st = Some st'"
    and "\<forall>slideId elementId updates. op = UpdateElement slideId elementId updates \<longrightarrow>
           u_id updates = None \<or> u_id updates = Some elementId"
  shows "(rewritesInPlace op \<longrightarrow> elementIds st' = elementIds st) \<and>
         (\<not> rewritesInPlace op \<longrightarrow>
            set (allElements st') \<subseteq> set (allElements st) \<union> set (introduced op st))"
proof (cases op)
  case (AddSlide now template)
  with assms(1) show ?thesis
    using allElements_addSlide [of now template st st'] by simp
next
  case (DeleteSlide now slideId)
  with assms(1) show ?thesis
    using allElements_deleteSlide [of now slideId st] by auto
next
  case (DuplicateSlide now stamp slideId)
  with assms(1) show ?thesis
    using allElements_duplicateSlide [of now stamp slideId st] by auto
next
  case (ReorderSlides dragIndex hoverIndex)
  with assms(1) show ?thesis
    using allElements_reorderSlides [of dragIndex hoverIndex st st'] by auto
next
  case (SetCurrentSlide slideId)
  with assms(1) show ?thesis
    by (auto simp: setCurrentSlide_def allElements_def)
next
  case (AddElement slideId element)
  with assms(1) show ?thesis
    using allElements_addElement [of slideId element st] by auto
next
  case (UpdateElement slideId elementId updates)
  with assms show ?thesis
    using elementIds_updateElement [of updates elementId slideId st] by auto
next
  case (DeleteElement slideId elementId)
  with assms(1) show ?thesis
    using allElements_deleteElement [of slideId elementId st] by auto
next
  case (SetSelectedElement elementId)
  with assms(1) show ?thesis
    by (auto simp: setSelectedElement_def allElements_def)
next
  case (BringToFront slideId elementId)
  with assms(1) show ?thesis
    using elementIds_bringToFront [of slideId elementId st] by auto
next
  case (SendToBack slideId elementId)
  with assms(1) show ?thesis
    using elementIds_sendToBack [of slideId elementId st] by auto
qed

theorem element_ids_immutable_witness:
  "elementIds (updateElement ''s'' ''a''
      \<lparr>u_id = Some ''a'', u_type = None, u_x = Some 7, u_y = None, u_width = None,
       u_height = None, u_content = Some (Some ''Hello''), u_style = None, u_zIndex = None\<rparr>
      \<lparr>slides = [\<lparr>id_s = ''s'', elements =
          [\<lparr>id_e = ''a'', type_e = Text, x_e = 0, y_e = 0, width_e = 10, height_e = 10,
            content = None, style = None, zIndex = None\<rparr>], backgroundColor = None\<rparr>],
       currentSlideId = Some ''s'', selectedElementId = Some ''a'', isLoaded = True\<rparr>) =
   [[''a'']]"
  using element_ids_immutable [of
      "UpdateElement ''s'' ''a''
        \<lparr>u_id = Some ''a'', u_type = None, u_x = Some 7, u_y = None, u_width = None,
         u_height = None, u_content = Some (Some ''Hello''), u_style = None, u_zIndex = None\<rparr>"
      "\<lparr>slides = [\<lparr>id_s = ''s'', elements =
          [\<lparr>id_e = ''a'', type_e = Text, x_e = 0, y_e = 0, width_e = 10, height_e = 10,
            content = None, style = None, zIndex = None\<rparr>], backgroundColor = None\<rparr>],
        currentSlideId = Some ''s'', selectedElementId = Some ''a'', isLoaded = True\<rparr>"
      "updateElement ''s'' ''a''
        \<lparr>u_id = Some ''a'', u_type = None, u_x = Some 7, u_y = None, u_width = None,
         u_height = None, u_content = Some (Some ''Hello''), u_style = None, u_zIndex = None\<rparr>
        \<lparr>slides = [\<lparr>id_s = ''s'', elements =
          [\<lparr>id_e = ''a'', type_e = Text, x_e = 0, y_e = 0, width_e = 10, height_e = 10,
            content = None, style = None, zIndex = None\<rparr>], backgroundColor = None\<rparr>],
         currentSlideId = Some ''s'', selectedElementId = Some ''a'', isLoaded = True\<rparr>"]
  by (simp add: elementIds_def)

text \<open>
  The claim as written fails: an update map with an \<open>id\<close> key gives the matched
  element that id.
\<close>

theorem updateElement_replaces_id_counterexample:
  "elementIds
      \<lparr>slides = [\<lparr>id_s = ''s'', elements =
          [\<lparr>id_e = ''a'', type_e = Text, x_e = 0, y_e = 0, width_e = 10, height_e = 10,
            content = None, style = None, zIndex = None\<rparr>], backgroundColor = None\<rparr>],
       currentSlideId = Some ''s'', selectedElementId = Some ''a'', isLoaded = True\<rparr> =
     [[''a'']] \<and>
   elementIds (updateElement ''s'' ''a''
      \<lparr>u_id = Some ''b'', u_type = None, u_x = None, u_y = None, u_width = None,
       u_height = None, u_content = None, u_style = None, u_zIndex = None\<rparr>
      \<lparr>slides = [\<lparr>id_s = ''s'', elements =
          [\<lparr>id_e = ''a'', type_e = Text, x_e = 0, y_e = 0, width_e = 10, height_e = 10,
            content = None, style = None, zIndex = None\<rparr>], backgroundColor = None\<rparr>],
       currentSlideId = Some ''s'', selectedElementId = Some ''a'', isLoaded = True\<rparr>) =
     [[''b'']]"
  by (simp add: elementIds_def updateElement_def spreadUpdates_def overwrite_def)

section \<open>Properties of the persistence layer\<close>

lemma those_map_Some:
  "(\<And>x. x \<in> set xs \<Longrightarrow> f x = Some (g x)) \<Longrightarrow> those (map f xs) = Some (map g xs)"
  by (induction xs) auto

lemma getProp_truthy_object:
  "truthy (getProp v k) \<Longrightarrow> truthy v \<and> typeof v = ''object''"
  by (cases v) auto

lemma shape_check_eq:
  "(truthy slide \<and> typeof slide = ''object'' \<and> truthy (getProp slide ''id'')
      \<and> isArray (getProp slide ''elements'')) = passesShapeCheck slide"
  using getProp_truthy_object [of slide "''id''"] by (auto simp: passesShapeCheck_def)

lemma toJSON_sanitized_element:
  "toJSON (JObj
        [(''id'', getProp element ''id''),
         (''type'', getProp element ''type''),
         (''x'', getProp element ''x''),
         (''y'', getProp element ''y''),
         (''width'', getProp element ''width''),
         (''height'', getProp element ''height''),
         (''content'', getProp element ''content''),
         (''style'', getProp element ''style''),
         (''zIndex'', getProp element ''zIndex'')]) = storedElement element"
  by (simp add: storedElement_def keptFields_def split del: if_split)

lemma sanitizeSlide_stored:
  assumes "isArray (getProp slide ''elements'')"
    and "\<forall>element \<in> set (arrayItems (getProp slide ''elements'')). \<not> nullish element"
  shows "\<exists>clean. sanitizeSlide slide = Some clean \<and> clean \<noteq> JUndefined
           \<and> toJSON clean = storedSlide slide"
proof -
  from assms(1) obtain es where es: "getProp slide ''elements'' = JArr es"
    by (cases "getProp slide ''elements''") auto
  let ?g = "\<lambda>element. JObj
        [(''id'', getProp element ''id''),
         (''type'', getProp element ''type''),
         (''x'', getProp element ''x''),
         (''y'', getProp element ''y''),
         (''width'', getProp element ''width''),
         (''height'', getProp element ''height''),
         (''content'', getProp element ''content''),
         (''style'', getProp element ''style''),
         (''zIndex'', getProp element ''zIndex'')]"
  from assms(2) es have "those (map sanitizeElement es) = Some (map ?g es)"
    by (intro those_map_Some) (simp add: sanitizeElement_def)
  then have san: "sanitizeSlide slide = Some (JObj
                 [(''id'', getProp slide ''id''),
                  (''backgroundColor'', getProp slide ''backgroundColor''),
                  (''elements'', JArr (map ?g es))])"
    by (simp add: sanitizeSlide_def es)
  have "map (\<lambda>v. if v = JUndefined then JNull else toJSON v) (map ?g es) = map storedElement es"
    using toJSON_sanitized_element by (simp add: comp_def del: toJSON.simps)
  then have "toJSON (JObj
                 [(''id'', getProp slide ''id''),
                  (''backgroundColor'', getProp slide ''backgroundColor''),
                  (''elements'', JArr (map ?g es))]) = storedSlide slide"
    by (simp add: storedSlide_def keptFields_def es split del: if_split)
  with san show ?thesis by simp
qed

lemma savePresentation_stores:
  assumes "\<forall>slide \<in> set slideArray. passesShapeCheck slide \<longrightarrow>
             (\<forall>element \<in> set (arrayItems (getProp slide ''elements'')). \<not> nullish element)"
  shows "savePresentation slideArray st =
           setItem PRESENTATION_STORAGE_KEY
             (JsonText (JArr (map storedSlide (filter passesShapeCheck slideArray)))) st"
proof -
  let ?valid = "filter passesShapeCheck slideArray"
  define clean where "clean = (\<lambda>slide. the (sanitizeSlide slide))"
  have each: "sanitizeSlide slide = Some (clean slide) \<and> clean slide \<noteq> JUndefined
                \<and> toJSON (clean slide) = storedSlide slide"
    if "slide \<in> set ?valid" for slide
  proof -
    from that assms have "isArray (getProp slide ''elements'')"
      and "\<forall>element \<in> set (arrayItems (getProp slide ''elements'')). \<not> nullish element"
      by (auto simp: passesShapeCheck_def)
    from sanitizeSlide_stored [OF this] show ?thesis
      by (auto simp: clean_def)
  qed
  then have "those (map sanitizeSlide ?valid) = Some (map clean ?valid)"
    by (intro those_map_Some) simp
  then have san: "sanitizeSlidesForStorage slideArray = Some (map clean ?valid)"
    by (simp add: sanitizeSlidesForStorage_def shape_check_eq)
  have "map (\<lambda>v. if v = JUndefined then JNull else toJSON v) (map clean ?valid) =
        map storedSlide ?valid"
    using each by (simp del: toJSON.simps)
  then have "JSON_stringify (JArr (map clean ?valid)) = JsonText (JArr (map storedSlide ?valid))"
    by (simp add: JSON_stringify_def)
  with san show ?thesis
    by (simp add: savePresentation_def)
qed

lemma map_of_keptFields:
  "distinct keys \<Longrightarrow> map_of (keptFields keys v) k =
     (if k \<in> set keys \<and> getProp v k \<noteq> JUndefined then Some (toJSON (getProp v k)) else None)"
  by (induction keys) (auto simp: keptFields_def)

lemma toJSON_JUndefined_iff: "toJSON v = JUndefined \<longleftrightarrow> v = JUndefined"
  by (cases v) auto

lemma storedSlide_id: "getProp (storedSlide slide) ''id'' = toJSON (getProp slide ''id'')"
  by (simp add: storedSlide_def keptFields_def)

lemma storedSlide_backgroundColor:
  "getProp (storedSlide slide) ''backgroundColor'' = toJSON (getProp slide ''backgroundColor'')"
  by (simp add: storedSlide_def keptFields_def)

lemma storedSlide_elements:
  "getProp (storedSlide slide) ''elements'' =
     JArr (map storedElement (arrayItems (getProp slide ''elements'')))"
  by (simp add: storedSlide_def keptFields_def)

lemma storedElement_field:
  "getProp (storedElement element) k =
     (if k \<in> set [''id'', ''type'', ''x'', ''y'', ''width'', ''height'', ''content'', ''style'', ''zIndex'']
      then toJSON (getProp element k) else JUndefined)"
proof -
  have d: "distinct [''id'', ''type'', ''x'', ''y'', ''width'', ''height'', ''content'', ''style'', ''zIndex'']"
    by simp
  show ?thesis
    unfolding storedElement_def getProp.simps map_of_keptFields [OF d]
    by (simp split del: if_split) (auto split: if_splits)
qed


text \<open>
  C10. \<open>savePresentation\<close> persists exactly the input slides that pass the shape
  check (a truthy \<open>id\<close> and an array \<open>elements\<close>), in their order, each reduced
  to the fixed field set; the elements of those slides are objects, as their type says.
  A slide that fails the check, such as one whose id is the empty string (which the
  validator of \<open>loadPresentation\<close> accepts), is left out, and nothing is reported:
  the call returns the storage with the other slides written.
\<close>

theorem savePresentation_persists_valid_slides:
  assumes "\<forall>slide \<in> set slideArray. passesShapeCheck slide \<longrightarrow>
             (\<forall>element \<in> set (arrayItems (getProp slide ''elements'')). \<not> nullish element)"
  shows "savePresentation slideArray st =
           setItem PRESENTATION_STORAGE_KEY
             (JsonText (JArr (map storedSlide (filter passesShapeCheck slideArray)))) st \<and>
         (\<forall>slide \<in> set slideArray. getProp slide ''id'' = JStr [] \<longrightarrow>
            slide \<notin> set (filter passesShapeCheck slideArray) \<and>
            (isArray (getProp slide ''elements'') \<longrightarrow> isValidSlide slide))"
proof -
  have "isValidSlide slide" if "getProp slide ''id'' = JStr []" "isArray (getProp slide ''elements'')"
    for slide
    using that by (cases slide) (auto simp: isValidSlide_def)
  then show ?thesis
    using savePresentation_stores [OF assms, of st]
    by (auto simp: passesShapeCheck_def)
qed


theorem savePresentation_persists_valid_slides_witness:
  "savePresentation
     [JObj [(''id'', JStr ''s1''), (''elements'', JArr []), (''target'', JNull)],
      JObj [(''id'', JStr []), (''elements'', JArr [])],
      JObj [(''type'', JStr ''click'')]]
     emptyStorage PRESENTATION_STORAGE_KEY =
   Some (JsonText (JArr [JObj [(''id'', JStr ''s1''), (''elements'', JArr [])]]))"
  using savePresentation_persists_valid_slides [of
     "[JObj [(''id'', JStr ''s1''), (''elements'', JArr []), (''target'', JNull)],
       JObj [(''id'', JStr []), (''elements'', JArr [])],
       JObj [(''type'', JStr ''click'')]]" emptyStorage]
  by (simp add: passesShapeCheck_def setItem_def storedSlide_def keptFields_def)


text \<open>
  C2, as the code has it. For every slide sequence in which each slide has a non-empty
  string id and an array of elements that are objects, \<open>loadPresentation\<close> after
  \<open>savePresentation\<close> returns the slides in order, each reduced to the fixed slide
  and element field set, every kept field with the JSON form of its value
  (\<open>storedSlide_id\<close>, \<open>storedSlide_backgroundColor\<close>, \<open>storedSlide_elements\<close>
  and \<open>storedElement_field\<close> read the fields back).
\<close>

theorem save_then_load:
  assumes "\<forall>slide \<in> set slideArray.
             (\<exists>i. getProp slide ''id'' = JStr i \<and> i \<noteq> []) \<and>
             isArray (getProp slide ''elements'') \<and>
             (\<forall>element \<in> set (arrayItems (getProp slide ''elements'')). \<not> nullish element)"
  shows "loadPresentation (savePresentation slideArray st) = Some (map storedSlide slideArray)"
proof -
  from assms have pass: "\<forall>slide \<in> set slideArray. passesShapeCheck slide"
    by (auto simp: passesShapeCheck_def)
  then have all: "filter passesShapeCheck slideArray = slideArray"
    by (simp add: filter_id_conv)
  from assms have "\<forall>slide \<in> set slideArray. passesShapeCheck slide \<longrightarrow>
      (\<forall>element \<in> set (arrayItems (getProp slide ''elements'')). \<not> nullish element)"
    by blast
  from savePresentation_stores [OF this, of st] all
  have saved: "savePresentation slideArray st =
      setItem PRESENTATION_STORAGE_KEY (JsonText (JArr (map storedSlide slideArray))) st"
    by simp
  have "isValidSlide (storedSlide slide)" if "slide \<in> set slideArray" for slide
  proof -
    from that assms obtain i where "getProp slide ''id'' = JStr i"
      by blast
    then show ?thesis
      by (simp add: isValidSlide_def storedSlide_id storedSlide_elements)
         (simp add: storedSlide_def)
  qed
  then have "list_all isValidSlide (map storedSlide slideArray)"
    by (simp add: list_all_iff)
  with saved show ?thesis
    by (simp add: loadPresentation_def setItem_def)
qed

theorem save_then_load_witness:
  "loadPresentation (savePresentation
     [JObj [(''id'', JStr ''s1''),
            (''elements'', JArr [JObj [(''id'', JStr ''e1''), (''type'', JStr ''text''),
                                       (''x'', JNum 10), (''y'', JNum 20), (''width'', JNum 200),
                                       (''height'', JNum 50), (''content'', JStr ''Hello''),
                                       (''selected'', JBool True)]]),
            (''backgroundColor'', JStr ''#ffffff'')]]
     emptyStorage) =
   Some [JObj [(''id'', JStr ''s1''), (''backgroundColor'', JStr ''#ffffff''),
               (''elements'', JArr [JObj [(''id'', JStr ''e1''), (''type'', JStr ''text''),
                                          (''x'', JNum 10), (''y'', JNum 20), (''width'', JNum 200),
                                          (''height'', JNum 50), (''content'', JStr ''Hello'')]])]]"
  using save_then_load [of
     "[JObj [(''id'', JStr ''s1''),
            (''elements'', JArr [JObj [(''id'', JStr ''e1''), (''type'', JStr ''text''),
                                       (''x'', JNum 10), (''y'', JNum 20), (''width'', JNum 200),
                                       (''height'', JNum 50), (''content'', JStr ''Hello''),
                                       (''selected'', JBool True)]]),
            (''backgroundColor'', JStr ''#ffffff'')]]" emptyStorage]
  by (simp add: storedSlide_def storedElement_def keptFields_def nullish_def)


text \<open>
  The round trip as stated, for every slide with a string id, fails at the empty id:
  the slide is well-formed for the loader and is dropped by the shape check on saving.
\<close>

theorem save_then_load_counterexample:
  "typeof (getProp (JObj [(''id'', JStr []), (''elements'', JArr [])]) ''id'') = ''string'' \<and>
   isArray (getProp (JObj [(''id'', JStr []), (''elements'', JArr [])]) ''elements'') \<and>
   loadPresentation (savePresentation [JObj [(''id'', JStr []), (''elements'', JArr [])]] emptyStorage)
     = Some []"
  by (simp add: loadPresentation_def savePresentation_def sanitizeSlidesForStorage_def
        JSON_stringify_def setItem_def)

subsection \<open>Typed slides through the storage\<close>


lemma map_of_toJSON:
  "distinct (map fst ps) \<Longrightarrow>
   map_of (concat (map (\<lambda>(k, v). if v = JUndefined then [] else [(k, toJSON v)]) ps)) k =
     (case map_of ps k of None \<Rightarrow> None
      | Some v \<Rightarrow> if v = JUndefined then None else Some (toJSON v))"
proof (induction ps)
  case Nil
  then show ?case by simp
next
  case (Cons p ps)
  obtain k' v' where p: "p = (k', v')" by (cases p)
  from Cons.prems p have notin: "k' \<notin> fst ` set ps" and d: "distinct (map fst ps)"
    by auto
  from notin have none: "map_of ps k' = None"
    by (simp add: map_of_eq_None_iff)
  show ?case
    using Cons.IH [OF d] none by (auto simp: p split: option.splits)
qed

lemma getProp_toJSON:
  "distinct (map fst ps) \<Longrightarrow> getProp (toJSON (JObj ps)) k = toJSON (getProp (JObj ps) k)"
  by (simp add: map_of_toJSON split: option.splits)

lemma asOptional_string: "asOptional asString (toJSON (jsOpt JStr x)) = Some x"
  by (cases x) (auto simp: asOptional_def jsOpt_def)

lemma asOptional_number: "asOptional asNumber (toJSON (jsOpt JNum x)) = Some x"
  by (cases x) (auto simp: asOptional_def jsOpt_def)

lemma asTextAlign_js: "asTextAlign (jsTextAlign a) = Some a"
  by (cases a) (auto simp: asTextAlign_def)

lemma asOptional_textAlign: "asOptional asTextAlign (toJSON (jsOpt jsTextAlign x)) = Some x"
proof (cases x)
  case None
  then show ?thesis by (simp add: asOptional_def jsOpt_def)
next
  case (Some a)
  have "toJSON (jsTextAlign a) = jsTextAlign a" "jsTextAlign a \<noteq> JUndefined"
    by (cases a; simp)+
  with Some show ?thesis
    by (simp add: asOptional_def jsOpt_def asTextAlign_js)
qed

lemma asOptional_borderRadius:
  "asOptional asBorderRadius (toJSON (jsOpt jsBorderRadius x)) = Some x"
proof (cases x)
  case None
  then show ?thesis by (simp add: asOptional_def jsOpt_def)
next
  case (Some a)
  then show ?thesis
    by (cases a) (auto simp: asOptional_def jsOpt_def)
qed

lemma asElementType_js: "asElementType (toJSON (jsElementType t)) = Some t"
  by (cases t) (auto simp: asElementType_def)

lemma asStyle_js: "asStyle (toJSON (jsStyle s)) = Some s"
proof -
  let ?ps = "[(''backgroundColor'', jsOpt JStr (backgroundColor_st s)),
      (''color'', jsOpt JStr (color s)),
      (''fontSize'', jsOpt JNum (fontSize s)),
      (''fontWeight'', jsOpt JStr (fontWeight s)),
      (''fontStyle'', jsOpt JStr (fontStyle s)),
      (''textDecoration'', jsOpt JStr (textDecoration s)),
      (''textAlign'', jsOpt jsTextAlign (textAlign s)),
      (''borderRadius'', jsOpt jsBorderRadius (borderRadius s))]"
  have d: "distinct (map fst ?ps)"
    by simp
  have obj: "\<exists>qs. toJSON (JObj ?ps) = JObj qs"
    by simp
  then obtain qs where qs: "toJSON (JObj ?ps) = JObj qs"
    by blast
  have g: "getProp (JObj qs) k = toJSON (getProp (JObj ?ps) k)" for k
    using getProp_toJSON [OF d, of k] by (simp only: qs)
  have "asStyle (JObj qs) = Some s"
    unfolding asStyle_def g
    by (simp add: nullish_def asOptional_string asOptional_number asOptional_textAlign
          asOptional_borderRadius del: toJSON.simps)
  then show ?thesis
    by (simp only: jsStyle_def qs)
qed

lemma asOptional_style: "asOptional asStyle (toJSON (jsOpt jsStyle x)) = Some x"
proof (cases x)
  case None
  then show ?thesis by (simp add: asOptional_def jsOpt_def)
next
  case (Some a)
  have "toJSON (jsStyle a) \<noteq> JUndefined"
    by (simp add: jsStyle_def)
  with Some show ?thesis
    by (simp add: asOptional_def jsOpt_def asStyle_js del: toJSON.simps)
qed

lemma asElement_stored: "asElement (storedElement (jsElement e)) = Some e"
proof -
  have obj: "\<exists>qs. storedElement (jsElement e) = JObj qs"
    by (simp add: storedElement_def)
  then obtain qs where qs: "storedElement (jsElement e) = JObj qs"
    by blast
  have g: "getProp (JObj qs) k =
     (if k \<in> set [''id'', ''type'', ''x'', ''y'', ''width'', ''height'', ''content'', ''style'', ''zIndex'']
      then toJSON (getProp (jsElement e) k) else JUndefined)" for k
    using storedElement_field [of "jsElement e" k] by (simp only: qs)
  have "asElement (JObj qs) = Some e"
    unfolding asElement_def g
    by (simp add: nullish_def jsElement_def asElementType_js asOptional_string
          asOptional_number asOptional_style del: toJSON.simps)
       simp
  then show ?thesis
    by (simp only: qs)
qed

lemma those_map_asElement:
  "those (map (asElement \<circ> (storedElement \<circ> jsElement)) es) = Some es"
  by (induction es) (auto simp: asElement_stored)

lemma asSlide_stored: "asSlide (storedSlide (jsSlide s)) = Some s"
proof -
  have obj: "\<exists>qs. storedSlide (jsSlide s) = JObj qs"
    by (simp add: storedSlide_def)
  then obtain qs where qs: "storedSlide (jsSlide s) = JObj qs"
    by blast
  have "getProp (storedSlide (jsSlide s)) ''id'' = JStr (id_s s)"
    by (simp add: storedSlide_id jsSlide_def)
  then have i: "getProp (JObj qs) ''id'' = JStr (id_s s)"
    by (simp only: qs)
  have "getProp (storedSlide (jsSlide s)) ''backgroundColor'' =
      toJSON (jsOpt JStr (backgroundColor s))"
    by (simp add: storedSlide_backgroundColor jsSlide_def del: toJSON.simps)
  then have b: "getProp (JObj qs) ''backgroundColor'' = toJSON (jsOpt JStr (backgroundColor s))"
    by (simp only: qs)
  have "getProp (storedSlide (jsSlide s)) ''elements'' =
      JArr (map storedElement (map jsElement (elements s)))"
    by (simp add: storedSlide_elements jsSlide_def)
  then have e: "getProp (JObj qs) ''elements'' = JArr (map storedElement (map jsElement (elements s)))"
    by (simp only: qs)
  have "asSlide (JObj qs) = Some s"
    unfolding asSlide_def i b e
    by (simp add: nullish_def asOptional_string those_map_asElement del: toJSON.simps)
  then show ?thesis
    by (simp only: qs)
qed

lemma loadPresentation_setItem:
  "list_all isValidSlide loaded \<Longrightarrow>
   loadPresentation (setItem PRESENTATION_STORAGE_KEY (JsonText (JArr loaded)) st) = Some loaded"
  by (simp add: loadPresentation_def setItem_def)

lemma isValidSlide_stored:
  "getProp slide ''id'' = JStr i \<Longrightarrow> isValidSlide (storedSlide slide)"
  by (simp add: isValidSlide_def storedSlide_id storedSlide_elements) (simp add: storedSlide_def)

lemma typed_save_then_load:
  assumes "\<forall>s \<in> set typedSlides. id_s s \<noteq> []"
  shows "\<exists>loaded. loadPresentation (savePresentation (map jsSlide typedSlides) st) = Some loaded
           \<and> map asSlide loaded = map Some typedSlides"
proof -
  have el: "\<forall>slide \<in> set (map jsSlide typedSlides). passesShapeCheck slide \<longrightarrow>
      (\<forall>element \<in> set (arrayItems (getProp slide ''elements'')). \<not> nullish element)"
    by (auto simp: jsSlide_def jsElement_def nullish_def)
  from assms have "filter passesShapeCheck (map jsSlide typedSlides) = map jsSlide typedSlides"
    by (auto simp: filter_id_conv passesShapeCheck_def jsSlide_def)
  with savePresentation_stores [OF el, of st]
  have saved: "savePresentation (map jsSlide typedSlides) st =
      setItem PRESENTATION_STORAGE_KEY
        (JsonText (JArr (map storedSlide (map jsSlide typedSlides)))) st"
    by simp
  have "list_all isValidSlide (map storedSlide (map jsSlide typedSlides))"
    by (auto simp: list_all_iff jsSlide_def intro!: isValidSlide_stored)
  from loadPresentation_setItem [OF this, of st] saved
  have "loadPresentation (savePresentation (map jsSlide typedSlides) st) =
      Some (map storedSlide (map jsSlide typedSlides))"
    by simp
  moreover have "map asSlide (map storedSlide (map jsSlide typedSlides)) = map Some typedSlides"
    by (simp add: asSlide_stored comp_def)
  ultimately show ?thesis
    by blast
qed

subsection \<open>Templates that addSlide takes\<close>

text \<open>
  The two paths of \<open>addSlide\<close> past the check: a template of the declared type with
  a non-empty id is appended as it is and selected, and a falsy argument
  (\<open>undefined\<close>, \<open>null\<close>, \<open>false\<close>, \<open>0\<close>, the empty string) counts as no
  template, so that the synthesized empty slide is appended.
\<close>

lemma toJSON_jsOpt_prim:
  "toJSON (jsOpt JStr x) = jsOpt JStr x"
  "toJSON (jsOpt JNum y) = jsOpt JNum y"
  "toJSON (jsOpt jsTextAlign a) = jsOpt jsTextAlign a"
  "toJSON (jsOpt jsBorderRadius b) = jsOpt jsBorderRadius b"
proof -
  show "toJSON (jsOpt JStr x) = jsOpt JStr x"
    by (cases x) (auto simp: jsOpt_def)
  show "toJSON (jsOpt JNum y) = jsOpt JNum y"
    by (cases y) (auto simp: jsOpt_def)
  show "toJSON (jsOpt jsTextAlign a) = jsOpt jsTextAlign a"
  proof (cases a)
    case None
    then show ?thesis by (simp add: jsOpt_def)
  next
    case (Some t)
    then show ?thesis by (cases t) (auto simp: jsOpt_def)
  qed
  show "toJSON (jsOpt jsBorderRadius b) = jsOpt jsBorderRadius b"
  proof (cases b)
    case None
    then show ?thesis by (simp add: jsOpt_def)
  next
    case (Some t)
    then show ?thesis by (cases t) (auto simp: jsOpt_def)
  qed
qed

lemma asStyle_jsStyle: "asStyle (jsStyle s) = Some s"
  using asOptional_string [of "backgroundColor_st s"] asOptional_string [of "color s"]
    asOptional_number [of "fontSize s"] asOptional_string [of "fontWeight s"]
    asOptional_string [of "fontStyle s"] asOptional_string [of "textDecoration s"]
    asOptional_textAlign [of "textAlign s"] asOptional_borderRadius [of "borderRadius s"]
  by (simp add: asStyle_def jsStyle_def nullish_def toJSON_jsOpt_prim)

lemma asOptional_jsStyle: "asOptional asStyle (jsOpt jsStyle x) = Some x"
proof (cases x)
  case None
  then show ?thesis by (simp add: asOptional_def jsOpt_def)
next
  case (Some a)
  have "jsStyle a \<noteq> JUndefined"
    by (simp add: jsStyle_def)
  with Some show ?thesis
    by (simp add: asOptional_def jsOpt_def asStyle_jsStyle)
qed

lemma asElementType_jsElementType: "asElementType (jsElementType t) = Some t"
  by (cases t) (auto simp: asElementType_def)

lemma asElement_jsElement: "asElement (jsElement e) = Some e"
  using asOptional_string [of "content e"] asOptional_number [of "zIndex e"]
    asOptional_jsStyle [of "style e"]
  by (simp add: asElement_def jsElement_def nullish_def asElementType_jsElementType
        toJSON_jsOpt_prim)

lemma asSlide_jsSlide: "asSlide (jsSlide s) = Some s"
proof -
  have "those (map (asElement \<circ> jsElement) es) = Some es" for es
    by (induction es) (auto simp: asElement_jsElement)
  then show ?thesis
    using asOptional_string [of "backgroundColor s"]
    by (simp add: asSlide_def jsSlide_def nullish_def toJSON_jsOpt_prim)
qed

lemma addSlide_typed_template:
  assumes "id_s template \<noteq> []"
  shows "addSlide now (jsSlide template) st =
           Some (st\<lparr>slides := filter validSlide (slides st) @ [template],
                    currentSlideId := Some (id_s template),
                    selectedElementId := None\<rparr>)"
  using assms by (simp add: addSlide_def asSlide_jsSlide) (simp add: jsSlide_def)

lemma addSlide_without_template:
  assumes "\<not> truthy template"
  shows "addSlide now template st =
           Some (st\<lparr>slides := filter validSlide (slides st) @ [emptySlide now],
                    currentSlideId := Some (id_s (emptySlide now)),
                    selectedElementId := None\<rparr>)"
  using assms by (simp add: addSlide_def)

subsection \<open>Saved slides\<close>























section \<open>Properties of template population\<close>

lemma startsWith_append: "startsWith (p @ s) p"
  by (simp add: startsWith_def)

lemma startsWith_split: "startsWith s p \<Longrightarrow> s = p @ drop (length p) s"
  by (metis append_take_drop_id startsWith_def)

lemma not_digit_bracket: "\<not> isDigit (CHR '']'')"
  by (simp add: isDigit_def)

lemma matchImageHere_token:
  assumes "ds \<noteq> []" and "\<forall>c \<in> set ds. isDigit c"
  shows "matchImageHere (''{{images['' @ ds @ '']}}'' @ rest) = Some ds"
proof -
  have tw: "takeWhile isDigit (ds @ '']}}'' @ rest) = ds"
    using assms(2) not_digit_bracket by (simp add: takeWhile_append2)
  have dw: "dropWhile isDigit (ds @ '']}}'' @ rest) = '']}}'' @ rest"
    using assms(2) not_digit_bracket by (simp add: dropWhile_append2)
  have sw: "startsWith (''{{images['' @ ds @ '']}}'' @ rest) ''{{images[''"
    by (rule startsWith_append)
  have dr: "drop 9 (''{{images['' @ ds @ '']}}'' @ rest) = ds @ '']}}'' @ rest"
    by simp
  show ?thesis
    unfolding matchImageHere_def Let_def dr tw dw
    using sw assms(1) startsWith_append [of "'']}}''" rest] by simp
qed

lemma matchImageHere_sound:
  assumes "matchImageHere s = Some ds"
  shows "\<exists>rest. s = ''{{images['' @ ds @ '']}}'' @ rest \<and> ds \<noteq> [] \<and> (\<forall>c \<in> set ds. isDigit c)"
proof -
  let ?r = "drop 9 s"
  from assms have sw: "startsWith s ''{{images[''"
    and ds: "ds = takeWhile isDigit ?r" and ne: "ds \<noteq> []"
    and sw2: "startsWith (dropWhile isDigit ?r) '']}}''"
    by (auto simp: matchImageHere_def Let_def split: if_splits)
  have len: "length ''{{images['' = 9"
    by simp
  from startsWith_split [OF sw] have s: "s = ''{{images['' @ ?r"
    unfolding len .
  have r: "?r = ds @ dropWhile isDigit ?r"
    by (simp add: ds)
  from startsWith_split [OF sw2] obtain rest where "dropWhile isDigit ?r = '']}}'' @ rest"
    by blast
  with r have "?r = ds @ '']}}'' @ rest"
    by simp
  with s have "s = ''{{images['' @ ds @ '']}}'' @ rest"
    by simp
  moreover have "\<forall>c \<in> set ds. isDigit c"
    unfolding ds by (auto dest: set_takeWhileD)
  ultimately show ?thesis
    using ne by blast
qed

text \<open>
  The leftmost occurrence: \<open>matchImage\<close> finds the placeholder before which no
  placeholder starts.
\<close>

lemma matchImage_first:
  assumes "ds \<noteq> []" and "\<forall>c \<in> set ds. isDigit c"
    and "\<And>pre' ds' rest'.
           pre @ ''{{images['' @ ds @ '']}}'' @ rest = pre' @ ''{{images['' @ ds' @ '']}}'' @ rest' \<Longrightarrow>
           ds' \<noteq> [] \<Longrightarrow> \<forall>c \<in> set ds'. isDigit c \<Longrightarrow> length pre \<le> length pre'"
  shows "matchImage (pre @ ''{{images['' @ ds @ '']}}'' @ rest) = Some ds"
  using assms(3)
proof (induction pre)
  case Nil
  have "''{{images['' @ ds @ '']}}'' @ rest = CHR ''{'' # (''{images['' @ ds @ '']}}'' @ rest)"
    by simp
  then show ?case
    using matchImageHere_token [OF assms(1,2), of rest]
    by (metis append_Nil matchImage.simps(2) option.simps(5))
next
  case (Cons x pre)
  let ?tail = "pre @ ''{{images['' @ ds @ '']}}'' @ rest"
  have here: "matchImageHere (x # ?tail) = None"
  proof (rule ccontr)
    assume "matchImageHere (x # ?tail) \<noteq> None"
    then obtain ds' where "matchImageHere (x # ?tail) = Some ds'"
      by blast
    from matchImageHere_sound [OF this] obtain rest' where
      "x # ?tail = ''{{images['' @ ds' @ '']}}'' @ rest'" "ds' \<noteq> []" "\<forall>c \<in> set ds'. isDigit c"
      by blast
    then have "(x # pre) @ ''{{images['' @ ds @ '']}}'' @ rest = [] @ ''{{images['' @ ds' @ '']}}'' @ rest'"
      by simp
    from Cons.prems [OF this \<open>ds' \<noteq> []\<close> \<open>\<forall>c \<in> set ds'. isDigit c\<close>] show False
      by simp
  qed
  have "matchImage ?tail = Some ds"
  proof (rule Cons.IH)
    fix pre' ds' rest'
    assume eq: "?tail = pre' @ ''{{images['' @ ds' @ '']}}'' @ rest'"
      and "ds' \<noteq> []" "\<forall>c \<in> set ds'. isDigit c"
    from eq have "(x # pre) @ ''{{images['' @ ds @ '']}}'' @ rest =
        (x # pre') @ ''{{images['' @ ds' @ '']}}'' @ rest'"
      by simp
    from Cons.prems [OF this \<open>ds' \<noteq> []\<close> \<open>\<forall>c \<in> set ds'. isDigit c\<close>]
    show "length pre \<le> length pre'"
      by simp
  qed
  with here show ?case
    by simp
qed

lemma includes_str_append: "includes_str (pre @ p @ s) p"
proof (induction pre)
  case Nil
  show ?case
  proof (cases "p @ s")
    case Nil
    then show ?thesis by simp
  next
    case (Cons c cs)
    with startsWith_append [of p s] show ?thesis
      by (metis append_Nil includes_str.simps(2))
  qed
next
  case (Cons x pre)
  then show ?case by simp
qed


lemma digitValue_digitChar: "d < 10 \<Longrightarrow> digitValue (digitChar d) = d"
proof -
  assume "d < 10"
  then have "d \<in> {0, 1, 2, 3, 4, 5, 6, 7, 8, 9}"
    by auto
  then show ?thesis
    by (auto simp: digitChar_def digitValue_def)
qed

lemma isDigit_digitChar: "d < 10 \<Longrightarrow> isDigit (digitChar d)"
proof -
  assume "d < 10"
  then have "d \<in> {0, 1, 2, 3, 4, 5, 6, 7, 8, 9}"
    by auto
  then show ?thesis
    by (auto simp: digitChar_def isDigit_def)
qed

lemma parseInt_snoc: "parseInt (ds @ [c]) = 10 * parseInt ds + digitValue c"
  by (simp add: parseInt_def)

lemma parseInt_decimal: "parseInt (decimal n) = n"
proof (induction n rule: decimal.induct)
  case (1 n)
  show ?case
  proof (cases "n < 10")
    case True
    then show ?thesis
      by (simp add: decimal.simps [of n] parseInt_def digitValue_digitChar)
  next
    case False
    with 1 have "parseInt (decimal (n div 10)) = n div 10"
      by simp
    with False show ?thesis
      by (simp add: decimal.simps [of n] parseInt_snoc digitValue_digitChar)
  qed
qed

lemma digits_decimal: "\<forall>c \<in> set (decimal n). isDigit c"
proof (induction n rule: decimal.induct)
  case (1 n)
  show ?case
  proof (cases "n < 10")
    case True
    then show ?thesis
      by (simp add: decimal.simps [of n] isDigit_digitChar)
  next
    case False
    with 1 show ?thesis
      by (simp add: decimal.simps [of n] isDigit_digitChar)
  qed
qed

lemma decimal_nonempty: "decimal n \<noteq> []"
  by (simp add: decimal.simps [of n])


text \<open>
  C4, as the code has it. Take an image element whose content holds the placeholder
  \<open>{{images[N]}}\<close>, \<open>N\<close> written with one or more decimal digits
  (\<open>parseInt_decimal\<close>: the digits of \<open>N\<close> are read back as \<open>N\<close>), at its
  first occurrence: no such placeholder starts earlier in the content.
  \<open>populateTemplate\<close> replaces the content with \<open>data.images[N]\<close> when index
  \<open>N\<close> exists and the string there is not empty, and leaves the content as it was
  otherwise.
\<close>

theorem populateTemplate_image_placeholder:
  assumes "i < length (elements slide)"
    and "type_e (elements slide ! i) = Image"
    and "content (elements slide ! i) = Some (pre @ ''{{images['' @ ds @ '']}}'' @ rest)"
    and "ds \<noteq> []" and "\<forall>c \<in> set ds. isDigit c"
    and "\<forall>pre' ds' rest'.
           pre @ ''{{images['' @ ds @ '']}}'' @ rest = pre' @ ''{{images['' @ ds' @ '']}}'' @ rest' \<and>
           ds' \<noteq> [] \<and> (\<forall>c \<in> set ds'. isDigit c) \<longrightarrow> length pre \<le> length pre'"
  shows "elements (populateTemplate toLocaleString slide d) ! i =
           (elements slide ! i)\<lparr>content := Some
              (if parseInt ds < length (images d) \<and> images d ! parseInt ds \<noteq> []
               then images d ! parseInt ds
               else pre @ ''{{images['' @ ds @ '']}}'' @ rest)\<rparr>"
proof -
  let ?c = "pre @ ''{{images['' @ ds @ '']}}'' @ rest"
  have m: "matchImage ?c = Some ds"
    using assms(6) by (intro matchImage_first [OF assms(4,5)]) blast
  have inc: "includes_str ?c ''{{images[''"
    using includes_str_append [of pre "''{{images[''" "ds @ '']}}'' @ rest"] by simp
  have ne: "?c \<noteq> []"
    by simp
  have "populateElement toLocaleString d (elements slide ! i) =
          (elements slide ! i)\<lparr>content := Some
              (if parseInt ds < length (images d) \<and> images d ! parseInt ds \<noteq> []
               then images d ! parseInt ds else ?c)\<rparr>"
    unfolding populateElement_def assms(3) option.case Let_def m
    using assms(2) inc ne by simp
  with assms(1) show ?thesis
    by (simp add: populateTemplate_def)
qed


theorem populateTemplate_image_placeholder_witness:
  "elements (populateTemplate toLocaleString_enUS
      \<lparr>id_s = ''s'', elements =
         [\<lparr>id_e = ''p'', type_e = Image, x_e = 0, y_e = 0, width_e = 400, height_e = 300,
           content = Some ''{{images[1]}}'', style = None, zIndex = None\<rparr>],
       backgroundColor = None\<rparr>
      (mockRealEstateData\<lparr>images := [''a.jpg'', ''b.jpg'']\<rparr>)) ! 0 =
   \<lparr>id_e = ''p'', type_e = Image, x_e = 0, y_e = 0, width_e = 400, height_e = 300,
     content = Some ''b.jpg'', style = None, zIndex = None\<rparr>"
proof -
  have p: "parseInt ''1'' = 1"
    by (simp add: parseInt_def digitValue_def)
  show ?thesis
    using populateTemplate_image_placeholder [of 0
      "\<lparr>id_s = ''s'', elements =
         [\<lparr>id_e = ''p'', type_e = Image, x_e = 0, y_e = 0, width_e = 400, height_e = 300,
           content = Some ''{{images[1]}}'', style = None, zIndex = None\<rparr>],
       backgroundColor = None\<rparr>" "[]" "''1''" "[]" toLocaleString_enUS
      "mockRealEstateData\<lparr>images := [''a.jpg'', ''b.jpg'']\<rparr>"]
    by (simp add: p isDigit_def)
qed

text \<open>
  The claim as written, replacement whenever the index exists, fails where the image
  list holds an empty string at that index: the truthiness test skips it.
\<close>

theorem populateTemplate_empty_image_counterexample:
  "0 < length (images (mockRealEstateData\<lparr>images := ['''']\<rparr>)) \<and>
   elements (populateTemplate toLocaleString_enUS
      \<lparr>id_s = ''s'', elements =
         [\<lparr>id_e = ''p'', type_e = Image, x_e = 0, y_e = 0, width_e = 400, height_e = 300,
           content = Some ''{{images[0]}}'', style = None, zIndex = None\<rparr>],
       backgroundColor = None\<rparr>
      (mockRealEstateData\<lparr>images := ['''']\<rparr>)) =
   [\<lparr>id_e = ''p'', type_e = Image, x_e = 0, y_e = 0, width_e = 400, height_e = 300,
     content = Some ''{{images[0]}}'', style = None, zIndex = None\<rparr>]"
  by code_simp


text \<open>
  C3. The claim is that in an element outside the image branch exactly the eleven
  placeholder tokens are replaced and every other text is returned verbatim. The
  placeholder \<open>{{agent.name}}\<close> is compiled as a regular expression with its dot
  unescaped, so the code replaces \<open>{{agentXname}}\<close>, which holds no token, by the
  agent's name.
\<close>

theorem populateTemplate_dot_is_wildcard:
  "elements (populateTemplate toLocaleString_enUS
      \<lparr>id_s = ''s'', elements =
         [\<lparr>id_e = ''t'', type_e = Text, x_e = 0, y_e = 0, width_e = 400, height_e = 30,
           content = Some ''{{agentXname}}'', style = None, zIndex = None\<rparr>],
       backgroundColor = None\<rparr>
      mockRealEstateData) =
   [\<lparr>id_e = ''t'', type_e = Text, x_e = 0, y_e = 0, width_e = 400, height_e = 30,
     content = Some ''Sarah Johnson'', style = None, zIndex = None\<rparr>]"
  by code_simp

end
